theory Spec2Isabelle
  imports Main "HOL-Library.AList"
begin

section \<open>Python values, the object store and the outside world\<close>

text \<open>
  The module \<^verbatim>\<open>parastell/parastell.py\<close> is orchestration code: it merges configuration
  dictionaries with defaults and drives the in-vessel build, magnet, source-mesh and
  export modules. Values are Python values; dictionaries and other objects live in a
  store and are held by reference, so that \<^verbatim>\<open>copy()\<close>, \<^verbatim>\<open>update()\<close> and item assignment can
  be told apart from rebinding. A dictionary keeps its items in insertion order, as
  Python does, and its keys are the strings of the configuration files.
\<close>

type_synonym addr = nat

datatype pyval = PyNone | PyBool bool | PyInt int | PyStr string | PyRef addr

type_synonym dict = "(string \<times> pyval) list"

text \<open>
  \<open>Logger h\<close> is a logger object whose \<^verbatim>\<open>hasHandlers()\<close> answers \<open>h\<close>; \<open>Opaque t\<close> is any other
  object (a float, a list, an instance of a class of another module) with truth value
  \<open>t\<close>.
\<close>

datatype obj = Dict dict | Logger bool | Opaque bool

text \<open>
  An f-string is kept as its pieces: the literal text and the values formatted into the
  holes. \<open>Hole v\<close> stands for \<^verbatim>\<open>str(v)\<close>.
\<close>

datatype piece = Lit string | Hole pyval

type_synonym fstring = "piece list"

type_synonym kwargs = "(string \<times> pyval) list"

text \<open>
  Every call that leaves the module is an event: the callee, the receiver for a method,
  the positional arguments and the keyword arguments.
\<close>

datatype call =
    Parse_args
  | Open_file pyval
  | Safe_load pyval
  | Logger_error fstring
  | Logger_info fstring
  | VMECData pyval
  | InVesselBuild "pyval list" kwargs
  | Populate_surfaces pyval
  | Calculate_loci pyval
  | Generate_components pyval
  | InVesselBuild_export_step pyval kwargs
  | InVesselBuild_export_cad_to_dagmc pyval kwargs
  | Merge_layer_surfaces pyval
  | MagnetSet "pyval list" kwargs
  | Build_magnet_coils pyval
  | MagnetSet_export_step pyval kwargs
  | Mesh_magnets pyval
  | MagnetSet_export_mesh pyval kwargs
  | SourceMesh "pyval list" kwargs
  | Create_vertices pyval
  | Create_mesh pyval
  | SourceMesh_export_mesh pyval kwargs
  | Init_cubit
  | Import_step_cubit pyval pyval
  | Cubit_cmd fstring
  | Export_dagmc_cubit_legacy kwargs
  | Export_dagmc_cubit_native kwargs

datatype error =
    AssertionError fstring
  | AttributeError
  | KeyError string
  | TypeError
  | ValueError
  | ExternalError call

text \<open>
  The outside world: whether a call raises and what it returns, given the calls made so
  far, and the attributes this module reads from the objects of the other modules.
\<close>

record env =
  raises :: "call list \<Rightarrow> call \<Rightarrow> bool"
  result :: "call list \<Rightarrow> call \<Rightarrow> pyval"
  radial_build :: "call list \<Rightarrow> pyval \<Rightarrow> pyval"
  export_dir :: "call list \<Rightarrow> pyval \<Rightarrow> pyval"
  volume_ids :: "call list \<Rightarrow> pyval \<Rightarrow> int list"
  mat_tag :: "call list \<Rightarrow> pyval \<Rightarrow> pyval"

text \<open>
  The state: the store, the calls made so far, and the attributes of the one
  \<^verbatim>\<open>Stellarator\<close> object (\<open>None\<close> while an attribute has not been assigned).
\<close>

record state =
  heap :: "obj list"
  trace :: "call list"
  p_logger :: "pyval option"
  p_vmec_file :: "pyval option"
  vmec :: "pyval option"
  invessel_build :: "pyval option"
  magnet_set :: "pyval option"
  source_mesh :: "pyval option"
  ivb_dict :: "pyval option"
  magnets_dict :: "pyval option"
  source_dict :: "pyval option"
  dagmc_export :: "pyval option"

subsection \<open>Statements that may raise\<close>

text \<open>An exception leaves the state as it is at the point of the raise.\<close>

datatype 'a outcome = Return 'a | Raise error

type_synonym 'a prog = "state \<Rightarrow> 'a outcome \<times> state"

definition return :: "'a \<Rightarrow> 'a prog" where
  "return x st = (Return x, st)"

definition raise :: "error \<Rightarrow> 'a prog" where
  "raise e st = (Raise e, st)"

definition andthen :: "'a prog \<Rightarrow> ('a \<Rightarrow> 'b prog) \<Rightarrow> 'b prog" where
  "andthen m f st =
     (case m st of
        (Return x, st') \<Rightarrow> f x st'
      | (Raise e, st') \<Rightarrow> (Raise e, st'))"

definition assign :: "(state \<Rightarrow> state) \<Rightarrow> unit prog" where
  "assign f st = (Return (), f st)"

definition attr :: "(state \<Rightarrow> pyval option) \<Rightarrow> pyval prog" where
  "attr f st =
     (case f st of
        Some v \<Rightarrow> (Return v, st)
      | None \<Rightarrow> (Raise AttributeError, st))"

primrec for_each :: "('a \<Rightarrow> unit prog) \<Rightarrow> 'a list \<Rightarrow> unit prog" where
  "for_each f [] st = (Return (), st)"
| "for_each f (x # xs) st =
     (case f x st of
        (Return _, st') \<Rightarrow> for_each f xs st'
      | (Raise e, st') \<Rightarrow> (Raise e, st'))"

definition ext :: "env \<Rightarrow> call \<Rightarrow> pyval prog" where
  "ext ev c st =
     (let h = trace st; st' = st\<lparr>trace := h @ [c]\<rparr>
      in if raises ev h c then (Raise (ExternalError c), st')
         else (Return (result ev h c), st'))"

subsection \<open>Objects and dictionaries\<close>

definition alloc :: "obj \<Rightarrow> pyval prog" where
  "alloc ob st = (Return (PyRef (length (heap st))), st\<lparr>heap := heap st @ [ob]\<rparr>)"

definition deref :: "state \<Rightarrow> pyval \<Rightarrow> obj option" where
  "deref st v =
     (case v of
        PyRef a \<Rightarrow> (if a < length (heap st) then Some (heap st ! a) else None)
      | _ \<Rightarrow> None)"

definition truthy :: "state \<Rightarrow> pyval \<Rightarrow> bool" where
  "truthy st v =
     (case v of
        PyNone \<Rightarrow> False
      | PyBool b \<Rightarrow> b
      | PyInt i \<Rightarrow> i \<noteq> 0
      | PyStr s \<Rightarrow> s \<noteq> []
      | PyRef a \<Rightarrow>
          (case deref st v of
             Some (Dict d) \<Rightarrow> d \<noteq> []
           | Some (Logger h) \<Rightarrow> True
           | Some (Opaque t) \<Rightarrow> t
           | None \<Rightarrow> True))"

definition as_dict :: "pyval \<Rightarrow> dict prog" where
  "as_dict v st =
     (case deref st v of
        Some (Dict d) \<Rightarrow> (Return d, st)
      | _ \<Rightarrow> (Raise TypeError, st))"

definition store_dict :: "pyval \<Rightarrow> dict \<Rightarrow> unit prog" where
  "store_dict v d st =
     (case v of
        PyRef a \<Rightarrow> (Return (), st\<lparr>heap := (heap st)[a := Dict d]\<rparr>)
      | _ \<Rightarrow> (Raise TypeError, st))"

text \<open>\<^verbatim>\<open>d[k]\<close>, \<^verbatim>\<open>d[k] = x\<close>, \<^verbatim>\<open>d.copy()\<close> and \<^verbatim>\<open>d.update(other)\<close>.\<close>

definition getitem :: "pyval \<Rightarrow> string \<Rightarrow> pyval prog" where
  "getitem v k =
     andthen (as_dict v) (\<lambda>d.
       case map_of d k of
         Some x \<Rightarrow> return x
       | None \<Rightarrow> raise (KeyError k))"

definition setitem :: "pyval \<Rightarrow> string \<Rightarrow> pyval \<Rightarrow> unit prog" where
  "setitem v k x = andthen (as_dict v) (\<lambda>d. store_dict v (AList.update k x d))"

definition dict_copy :: "pyval \<Rightarrow> pyval prog" where
  "dict_copy v = andthen (as_dict v) (\<lambda>d. alloc (Dict d))"

definition update_items :: "dict \<Rightarrow> dict \<Rightarrow> dict" where
  "update_items other d = fold (\<lambda>(k, x). AList.update k x) other d"

definition dict_update :: "pyval \<Rightarrow> pyval \<Rightarrow> unit prog" where
  "dict_update v other =
     andthen (as_dict v) (\<lambda>d.
     andthen (as_dict other) (\<lambda>items.
       store_dict v (update_items items d)))"

section \<open>The Stellarator class\<close>

text \<open>
  Each method is a function of the same name; \<open>Stellarator_init\<close> is \<^verbatim>\<open>__init__\<close>,
  \<open>vmec_file\<close> and \<open>vmec_file_setter\<close> (\<open>logger\<close> and \<open>logger_setter\<close>) are the getter and the
  setter of a property, \<open>p_vmec_file\<close> and \<open>p_logger\<close> are the attributes \<^verbatim>\<open>_vmec_file\<close> and
  \<^verbatim>\<open>_logger\<close>, and the methods \<^verbatim>\<open>_import_ivb_step\<close>, \<^verbatim>\<open>_tag_materials_legacy\<close> and
  \<^verbatim>\<open>_tag_materials_native\<close> lose their leading underscore. A parameter that has the name
  of an attribute carries the suffix \<open>_arg\<close> or \<open>_cfg\<close>.
\<close>

subsection \<open>The vmec\_file and logger properties\<close>

text \<open>
  \<^verbatim>\<open>Path(file).suffix\<close> of the standard library, on POSIX paths: the name is the last
  component that is neither empty nor a single dot; the suffix starts at the last dot of
  the name when that dot is neither its first nor its last character.
\<close>

primrec split_path :: "string \<Rightarrow> string \<Rightarrow> string list" where
  "split_path [] cur = [rev cur]"
| "split_path (c # cs) cur =
     (if c = CHR ''/'' then rev cur # split_path cs [] else split_path cs (c # cur))"

definition path_name :: "string \<Rightarrow> string" where
  "path_name p =
     (case rev (filter (\<lambda>part. part \<noteq> [] \<and> part \<noteq> ''.'') (split_path p [])) of
        [] \<Rightarrow> []
      | n # _ \<Rightarrow> n)"

primrec rfind_from :: "char \<Rightarrow> string \<Rightarrow> int \<Rightarrow> int \<Rightarrow> int" where
  "rfind_from c [] i found = found"
| "rfind_from c (x # xs) i found = rfind_from c xs (i + 1) (if x = c then i else found)"

definition rfind :: "char \<Rightarrow> string \<Rightarrow> int" where
  "rfind c s = rfind_from c s 0 (- 1)"

definition suffix :: "string \<Rightarrow> string" where
  "suffix p =
     (let name = path_name p; i = rfind (CHR ''.'') name
      in if 0 < i \<and> i < int (length name) - 1 then drop (nat i) name else [])"

definition Path_suffix :: "pyval \<Rightarrow> string prog" where
  "Path_suffix v =
     (case v of
        PyStr s \<Rightarrow> return (suffix s)
      | _ \<Rightarrow> raise TypeError)"

definition logger_error :: "env \<Rightarrow> pyval \<Rightarrow> fstring \<Rightarrow> pyval prog" where
  "logger_error ev lg msg st =
     (case deref st lg of
        Some (Logger h) \<Rightarrow> ext ev (Logger_error msg) st
      | _ \<Rightarrow> (Raise AttributeError, st))"

definition logger_info :: "env \<Rightarrow> pyval \<Rightarrow> fstring \<Rightarrow> pyval prog" where
  "logger_info ev lg msg st =
     (case deref st lg of
        Some (Logger h) \<Rightarrow> ext ev (Logger_info msg) st
      | _ \<Rightarrow> (Raise AttributeError, st))"

definition hasHandlers :: "pyval \<Rightarrow> bool prog" where
  "hasHandlers lg st =
     (case deref st lg of
        Some (Logger h) \<Rightarrow> (Return h, st)
      | _ \<Rightarrow> (Raise AttributeError, st))"

definition vmec_file :: "pyval prog" where
  "vmec_file = attr p_vmec_file"

definition extension_message :: "string \<Rightarrow> fstring" where
  "extension_message sfx =
     [Lit (''Plasma equilibrium VMEC data file input has extension '' @ [CHR 0x27]),
      Hole (PyStr sfx),
      Lit ([CHR 0x27] @ ''. File format must be netCDF ('' @ [CHR 0x27] @ ''.nc''
           @ [CHR 0x27] @ '').'')]"

definition vmec_file_setter :: "env \<Rightarrow> pyval \<Rightarrow> unit prog" where
  "vmec_file_setter ev file =
     andthen (assign (\<lambda>st. st\<lparr>p_vmec_file := Some file\<rparr>)) (\<lambda>_.
     andthen (attr p_vmec_file) (\<lambda>f.
     andthen (Path_suffix f) (\<lambda>sfx.
       if sfx \<noteq> ''.nc'' then
         andthen (attr p_vmec_file) (\<lambda>f'.
         andthen (Path_suffix f') (\<lambda>sfx'.
         andthen (attr p_logger) (\<lambda>lg.
         andthen (logger_error ev lg (extension_message sfx')) (\<lambda>_.
           raise (AssertionError (extension_message sfx'))))))
       else return ())))"

definition logger :: "pyval prog" where
  "logger = attr p_logger"

text \<open>
  Modelled from the spec: \<^verbatim>\<open>log.init()\<close> of the module \<^verbatim>\<open>parastell/log.py\<close>, which is not
  part of the sources at hand. Where no usable logger is supplied, a default logger is
  instantiated; the default logger is a logger object with handlers.
\<close>

definition log_init :: "pyval prog" where
  "log_init = alloc (Logger True)"

definition logger_setter :: "pyval \<Rightarrow> unit prog" where
  "logger_setter logger_object =
     andthen (assign (\<lambda>st. st\<lparr>p_logger := Some logger_object\<rparr>)) (\<lambda>_.
     andthen (attr p_logger) (\<lambda>lg.
     andthen (if lg = PyNone then return True
              else andthen (attr p_logger) (\<lambda>lg'.
                   andthen (hasHandlers lg') (\<lambda>h. return (\<not> h)))) (\<lambda>c.
       if c then andthen log_init (\<lambda>l. assign (\<lambda>st. st\<lparr>p_logger := Some l\<rparr>))
       else return ())))"

text \<open>\<^verbatim>\<open>read_vmec.VMECData(file)\<close> and the other constructors build a new object.\<close>

definition construct :: "env \<Rightarrow> call \<Rightarrow> pyval prog" where
  "construct ev c = andthen (ext ev c) (\<lambda>_. alloc (Opaque True))"

definition Stellarator_init :: "env \<Rightarrow> pyval \<Rightarrow> pyval \<Rightarrow> unit prog" where
  "Stellarator_init ev vmec_file_arg logger_arg =
     andthen (logger_setter logger_arg) (\<lambda>_.
     andthen (vmec_file_setter ev vmec_file_arg) (\<lambda>_.
     andthen vmec_file (\<lambda>f.
     andthen (construct ev (VMECData f)) (\<lambda>v.
     andthen (assign (\<lambda>st. st\<lparr>vmec := Some v\<rparr>)) (\<lambda>_.
     andthen (assign (\<lambda>st. st\<lparr>invessel_build := Some PyNone\<rparr>)) (\<lambda>_.
     andthen (assign (\<lambda>st. st\<lparr>magnet_set := Some PyNone\<rparr>)) (\<lambda>_.
       assign (\<lambda>st. st\<lparr>source_mesh := Some PyNone\<rparr>))))))))"

subsection \<open>Configuration dictionaries with defaults\<close>

text \<open>
  Modelled from the spec: the constant \<^verbatim>\<open>m2cm\<close> of \<^verbatim>\<open>parastell/utils.py\<close>, which is not part
  of the sources at hand. The scale factor defaults to 100, metres to centimetres (the
  docstrings of this module say \<^verbatim>\<open>defaults to m2cm = 100\<close>).
\<close>

definition m2cm :: pyval where
  "m2cm = PyInt 100"

definition invessel_build_def :: dict where
  "invessel_build_def =
     [(''repeat'', PyInt 0),
      (''num_ribs'', PyInt 61),
      (''num_rib_pts'', PyInt 61),
      (''scale'', m2cm),
      (''export_cad_to_dagmc'', PyBool False),
      (''plasma_mat_tag'', PyNone),
      (''sol_mat_tag'', PyNone),
      (''dagmc_filename'', PyStr ''dagmc''),
      (''export_dir'', PyStr [])]"

definition set_invessel_build_dict :: "pyval \<Rightarrow> unit prog" where
  "set_invessel_build_dict invessel_build_arg =
     andthen (alloc (Dict invessel_build_def)) (\<lambda>defs.
     andthen (dict_copy defs) (\<lambda>c.
     andthen (assign (\<lambda>st. st\<lparr>ivb_dict := Some c\<rparr>)) (\<lambda>_.
     andthen (attr ivb_dict) (\<lambda>d.
       dict_update d invessel_build_arg))))"

definition get_invessel_build_dict :: "pyval prog" where
  "get_invessel_build_dict = attr ivb_dict"

definition magnets_def :: dict where
  "magnets_def =
     [(''sample_mod'', PyInt 1),
      (''scale'', m2cm),
      (''step_filename'', PyStr ''magnets''),
      (''mat_tag'', PyStr ''magnets''),
      (''export_mesh'', PyBool False),
      (''mesh_filename'', PyStr ''magnet_mesh''),
      (''export_dir'', PyStr [])]"

definition set_magnets_dict :: "pyval \<Rightarrow> unit prog" where
  "set_magnets_dict magnets =
     andthen (alloc (Dict magnets_def)) (\<lambda>defs.
     andthen (dict_copy defs) (\<lambda>c.
     andthen (assign (\<lambda>st. st\<lparr>magnets_dict := Some c\<rparr>)) (\<lambda>_.
     andthen (attr magnets_dict) (\<lambda>d.
       dict_update d magnets))))"

definition get_magnets_dict :: "pyval prog" where
  "get_magnets_dict = attr magnets_dict"

definition source_def :: dict where
  "source_def =
     [(''scale'', m2cm),
      (''filename'', PyStr ''source_mesh''),
      (''export_dir'', PyStr [])]"

definition set_source_dict :: "pyval \<Rightarrow> unit prog" where
  "set_source_dict source =
     andthen (alloc (Dict source_def)) (\<lambda>defs.
     andthen (dict_copy defs) (\<lambda>c.
     andthen (assign (\<lambda>st. st\<lparr>source_dict := Some c\<rparr>)) (\<lambda>_.
     andthen (attr source_dict) (\<lambda>d.
       dict_update d source))))"

definition get_source_dict :: "pyval prog" where
  "get_source_dict = attr source_dict"

definition dagmc_export_def :: dict where
  "dagmc_export_def =
     [(''skip_imprint'', PyBool False),
      (''legacy_faceting'', PyBool True),
      (''faceting_tolerance'', PyNone),
      (''length_tolerance'', PyNone),
      (''normal_tolerance'', PyNone),
      (''anisotropic_ratio'', PyInt 100),
      (''deviation_angle'', PyInt 5),
      (''filename'', PyStr ''dagmc''),
      (''export_dir'', PyStr [])]"

definition set_dagmc_export :: "pyval \<Rightarrow> unit prog" where
  "set_dagmc_export dagmc_export_arg =
     andthen (alloc (Dict dagmc_export_def)) (\<lambda>defs.
     andthen (dict_copy defs) (\<lambda>c.
     andthen (assign (\<lambda>st. st\<lparr>dagmc_export := Some c\<rparr>)) (\<lambda>_.
     andthen (attr dagmc_export) (\<lambda>d.
       dict_update d dagmc_export_arg))))"

definition get_dagmc_export :: "pyval prog" where
  "get_dagmc_export = attr dagmc_export"

subsection \<open>Building and exporting the components\<close>

text \<open>
  A method of an object of another module: looking the method up fails on \<^verbatim>\<open>None\<close>; the
  arguments are evaluated after the lookup and before the call. An attribute of such an
  object is read from the outside world.
\<close>

definition getmethod :: "pyval \<Rightarrow> pyval prog" where
  "getmethod recv =
     (case recv of
        PyRef a \<Rightarrow> return recv
      | _ \<Rightarrow> raise AttributeError)"

definition read_attr :: "env \<Rightarrow> (env \<Rightarrow> call list \<Rightarrow> pyval \<Rightarrow> 'a) \<Rightarrow> pyval \<Rightarrow> 'a prog" where
  "read_attr ev field recv st =
     (case recv of
        PyRef a \<Rightarrow> (Return (field ev (trace st) recv), st)
      | _ \<Rightarrow> (Raise AttributeError, st))"

definition test :: "pyval \<Rightarrow> bool prog" where
  "test v st = (Return (truthy st v), st)"

definition items_of :: "pyval \<Rightarrow> dict prog" where
  "items_of v st =
     (case deref st v of
        Some (Dict d) \<Rightarrow> (Return d, st)
      | _ \<Rightarrow> (Raise AttributeError, st))"

definition construct_invessel_build :: "env \<Rightarrow> pyval \<Rightarrow> unit prog" where
  "construct_invessel_build ev invessel_build_arg =
     andthen (set_invessel_build_dict invessel_build_arg) (\<lambda>_.
     andthen get_invessel_build_dict (\<lambda>d.
     andthen (attr vmec) (\<lambda>vm.
     andthen (getitem d ''toroidal_angles'') (\<lambda>toroidal_angles.
     andthen (getitem d ''poloidal_angles'') (\<lambda>poloidal_angles.
     andthen (getitem d ''radial_build'') (\<lambda>rb.
     andthen (getitem d ''wall_s'') (\<lambda>wall_s.
     andthen (getitem d ''repeat'') (\<lambda>repeat.
     andthen (getitem d ''num_ribs'') (\<lambda>num_ribs.
     andthen (getitem d ''num_rib_pts'') (\<lambda>num_rib_pts.
     andthen (getitem d ''scale'') (\<lambda>scale.
     andthen (getitem d ''plasma_mat_tag'') (\<lambda>plasma_mat_tag.
     andthen (getitem d ''sol_mat_tag'') (\<lambda>sol_mat_tag.
     andthen logger (\<lambda>lg.
     andthen (construct ev (InVesselBuild
                [vm, toroidal_angles, poloidal_angles, rb, wall_s]
                [(''repeat'', repeat), (''num_ribs'', num_ribs),
                 (''num_rib_pts'', num_rib_pts), (''scale'', scale),
                 (''plasma_mat_tag'', plasma_mat_tag), (''sol_mat_tag'', sol_mat_tag),
                 (''logger'', lg)])) (\<lambda>b.
     andthen (assign (\<lambda>st. st\<lparr>invessel_build := Some b\<rparr>)) (\<lambda>_.
     andthen (attr invessel_build) (\<lambda>b1.
     andthen (getmethod b1) (\<lambda>r1.
     andthen (ext ev (Populate_surfaces r1)) (\<lambda>_.
     andthen (attr invessel_build) (\<lambda>b2.
     andthen (getmethod b2) (\<lambda>r2.
     andthen (ext ev (Calculate_loci r2)) (\<lambda>_.
     andthen (attr invessel_build) (\<lambda>b3.
     andthen (getmethod b3) (\<lambda>r3.
     andthen (ext ev (Generate_components r3)) (\<lambda>_.
       return ())))))))))))))))))))))))))"

definition export_invessel_build :: "env \<Rightarrow> pyval \<Rightarrow> unit prog" where
  "export_invessel_build ev invessel_build_arg =
     andthen (set_invessel_build_dict invessel_build_arg) (\<lambda>_.
     andthen get_invessel_build_dict (\<lambda>d.
     andthen (attr invessel_build) (\<lambda>b.
     andthen (getmethod b) (\<lambda>r.
     andthen (getitem d ''export_dir'') (\<lambda>dir.
     andthen (ext ev (InVesselBuild_export_step r [(''export_dir'', dir)])) (\<lambda>_.
     andthen (getitem d ''export_cad_to_dagmc'') (\<lambda>flag.
     andthen (test flag) (\<lambda>t.
       if t then
         andthen (attr invessel_build) (\<lambda>b'.
         andthen (getmethod b') (\<lambda>r'.
         andthen (getitem d ''dagmc_filename'') (\<lambda>filename.
         andthen (getitem d ''export_dir'') (\<lambda>dir'.
         andthen (ext ev (InVesselBuild_export_cad_to_dagmc r'
                    [(''filename'', filename), (''export_dir'', dir')])) (\<lambda>_.
           return ())))))
       else return ()))))))))"

definition construct_magnets :: "env \<Rightarrow> pyval \<Rightarrow> unit prog" where
  "construct_magnets ev magnets =
     andthen (set_magnets_dict magnets) (\<lambda>_.
     andthen get_magnets_dict (\<lambda>d.
     andthen (getitem d ''coils_file_path'') (\<lambda>coils_file_path.
     andthen (getitem d ''start_line'') (\<lambda>start_line.
     andthen (getitem d ''cross_section'') (\<lambda>cross_section.
     andthen (getitem d ''toroidal_extent'') (\<lambda>toroidal_extent.
     andthen (getitem d ''sample_mod'') (\<lambda>sample_mod.
     andthen (getitem d ''scale'') (\<lambda>scale.
     andthen (getitem d ''mat_tag'') (\<lambda>tag.
     andthen logger (\<lambda>lg.
     andthen (construct ev (MagnetSet
                [coils_file_path, start_line, cross_section, toroidal_extent]
                [(''sample_mod'', sample_mod), (''scale'', scale), (''mat_tag'', tag),
                 (''logger'', lg)])) (\<lambda>m.
     andthen (assign (\<lambda>st. st\<lparr>magnet_set := Some m\<rparr>)) (\<lambda>_.
     andthen (attr magnet_set) (\<lambda>m1.
     andthen (getmethod m1) (\<lambda>r1.
     andthen (ext ev (Build_magnet_coils r1)) (\<lambda>_.
       return ())))))))))))))))"

definition export_magnets :: "env \<Rightarrow> pyval \<Rightarrow> unit prog" where
  "export_magnets ev magnets =
     andthen (set_magnets_dict magnets) (\<lambda>_.
     andthen get_magnets_dict (\<lambda>d.
     andthen (attr magnet_set) (\<lambda>m.
     andthen (getmethod m) (\<lambda>r.
     andthen (getitem d ''step_filename'') (\<lambda>filename.
     andthen (getitem d ''export_dir'') (\<lambda>dir.
     andthen (ext ev (MagnetSet_export_step r
                [(''filename'', filename), (''export_dir'', dir)])) (\<lambda>_.
     andthen (getitem d ''export_mesh'') (\<lambda>flag.
     andthen (test flag) (\<lambda>t.
       if t then
         andthen (attr magnet_set) (\<lambda>m1.
         andthen (getmethod m1) (\<lambda>r1.
         andthen (ext ev (Mesh_magnets r1)) (\<lambda>_.
         andthen (attr magnet_set) (\<lambda>m2.
         andthen (getmethod m2) (\<lambda>r2.
         andthen (getitem d ''mesh_filename'') (\<lambda>mesh_filename.
         andthen (getitem d ''export_dir'') (\<lambda>dir'.
         andthen (ext ev (MagnetSet_export_mesh r2
                    [(''filename'', mesh_filename), (''export_dir'', dir')])) (\<lambda>_.
           return ()))))))))
       else return ())))))))))"

definition construct_source_mesh :: "env \<Rightarrow> pyval \<Rightarrow> unit prog" where
  "construct_source_mesh ev source =
     andthen (set_source_dict source) (\<lambda>_.
     andthen get_source_dict (\<lambda>d.
     andthen (attr vmec) (\<lambda>vm.
     andthen (getitem d ''num_s'') (\<lambda>num_s.
     andthen (getitem d ''num_theta'') (\<lambda>num_theta.
     andthen (getitem d ''num_phi'') (\<lambda>num_phi.
     andthen (getitem d ''toroidal_extent'') (\<lambda>toroidal_extent.
     andthen (getitem d ''scale'') (\<lambda>scale.
     andthen logger (\<lambda>lg.
     andthen (construct ev (SourceMesh
                [vm, num_s, num_theta, num_phi, toroidal_extent]
                [(''scale'', scale), (''logger'', lg)])) (\<lambda>m.
     andthen (assign (\<lambda>st. st\<lparr>source_mesh := Some m\<rparr>)) (\<lambda>_.
     andthen (attr source_mesh) (\<lambda>m1.
     andthen (getmethod m1) (\<lambda>r1.
     andthen (ext ev (Create_vertices r1)) (\<lambda>_.
     andthen (attr source_mesh) (\<lambda>m2.
     andthen (getmethod m2) (\<lambda>r2.
     andthen (ext ev (Create_mesh r2)) (\<lambda>_.
       return ())))))))))))))))))"

definition export_source_mesh :: "env \<Rightarrow> pyval \<Rightarrow> unit prog" where
  "export_source_mesh ev source =
     andthen (set_source_dict source) (\<lambda>_.
     andthen get_source_dict (\<lambda>d.
     andthen (attr source_mesh) (\<lambda>m.
     andthen (getmethod m) (\<lambda>r.
     andthen (getitem d ''filename'') (\<lambda>filename.
     andthen (getitem d ''export_dir'') (\<lambda>dir.
     andthen (ext ev (SourceMesh_export_mesh r
                [(''filename'', filename), (''export_dir'', dir)])) (\<lambda>_.
       return ())))))))"

subsection \<open>The DAGMC export\<close>

definition cmd :: "env \<Rightarrow> fstring \<Rightarrow> unit prog" where
  "cmd ev s = andthen (ext ev (Cubit_cmd s)) (\<lambda>_. return ())"

definition make_material_block :: "env \<Rightarrow> pyval \<Rightarrow> pyval \<Rightarrow> fstring \<Rightarrow> unit prog" where
  \<open>make_material_block ev tag block_id vol_id_str =
     andthen (cmd ev [Lit ''create material "'', Hole tag,
                      Lit ''" property_group "CUBIT-ABAQUS"'']) (\<lambda>_.
     andthen (cmd ev ([Lit ''block '', Hole block_id, Lit '' add volume ''] @ vol_id_str)) (\<lambda>_.
       cmd ev [Lit ''block '', Hole block_id, Lit ('' material '' @ [CHR 0x27]), Hole tag,
               Lit [CHR 0x27]]))\<close>

definition import_ivb_step :: "env \<Rightarrow> unit prog" where
  "import_ivb_step ev =
     andthen (attr invessel_build) (\<lambda>b.
     andthen (read_attr ev radial_build b) (\<lambda>rb.
     andthen (items_of rb) (\<lambda>items.
       for_each (\<lambda>(name, data).
         andthen (attr invessel_build) (\<lambda>b'.
         andthen (read_attr ev export_dir b') (\<lambda>dir.
         andthen (ext ev (Import_step_cubit (PyStr name) dir)) (\<lambda>vol_id.
           setitem data ''vol_id'' vol_id)))) items)))"

text \<open>\<^verbatim>\<open>" ".join(str(i) for i in vol_list)\<close> and \<^verbatim>\<open>min(vol_list)\<close>.\<close>

fun join_ids :: "int list \<Rightarrow> fstring" where
  "join_ids [] = []"
| "join_ids [i] = [Hole (PyInt i)]"
| "join_ids (i # j # r) = Hole (PyInt i) # Lit '' '' # join_ids (j # r)"

definition py_min :: "int list \<Rightarrow> int prog" where
  "py_min xs =
     (case xs of
        [] \<Rightarrow> raise ValueError
      | x # r \<Rightarrow> return (fold min r x))"

definition tag_materials_legacy :: "env \<Rightarrow> unit prog" where
  \<open>tag_materials_legacy ev =
     andthen (attr magnet_set) (\<lambda>ms.
     andthen (test ms) (\<lambda>t.
     andthen (if t then
                andthen (attr magnet_set) (\<lambda>ms1.
                andthen (read_attr ev volume_ids ms1) (\<lambda>vol_list.
                andthen (attr magnet_set) (\<lambda>ms2.
                andthen (read_attr ev mat_tag ms2) (\<lambda>tag.
                  cmd ev ([Lit ''group "mat:'', Hole tag, Lit ''" add volume '']
                          @ join_ids vol_list)))))
              else return ()) (\<lambda>_.
     andthen (attr invessel_build) (\<lambda>b.
     andthen (test b) (\<lambda>t'.
       if t' then
         andthen (attr invessel_build) (\<lambda>b1.
         andthen (read_attr ev radial_build b1) (\<lambda>rb.
         andthen (items_of rb) (\<lambda>items.
           for_each (\<lambda>(name, data).
             andthen (getitem data ''mat_tag'') (\<lambda>tag.
             andthen (getitem data ''vol_id'') (\<lambda>vol_id.
               cmd ev [Lit ''group "mat:'', Hole tag, Lit ''" add volume '',
                       Hole vol_id]))) items)))
       else return ())))))\<close>

definition tag_materials_native :: "env \<Rightarrow> unit prog" where
  "tag_materials_native ev =
     andthen (cmd ev [Lit ''set duplicate block elements off'']) (\<lambda>_.
     andthen (attr magnet_set) (\<lambda>ms.
     andthen (test ms) (\<lambda>t.
     andthen (if t then
                andthen (attr magnet_set) (\<lambda>ms1.
                andthen (read_attr ev volume_ids ms1) (\<lambda>vol_list.
                andthen (py_min vol_list) (\<lambda>block_id.
                andthen (attr magnet_set) (\<lambda>ms2.
                andthen (read_attr ev mat_tag ms2) (\<lambda>tag.
                  make_material_block ev tag (PyInt block_id) (join_ids vol_list))))))
              else return ()) (\<lambda>_.
     andthen (attr invessel_build) (\<lambda>b.
     andthen (test b) (\<lambda>t'.
       if t' then
         andthen (attr invessel_build) (\<lambda>b1.
         andthen (read_attr ev radial_build b1) (\<lambda>rb.
         andthen (items_of rb) (\<lambda>items.
           for_each (\<lambda>(name, data).
             andthen (getitem data ''vol_id'') (\<lambda>block_id.
             andthen (getitem data ''mat_tag'') (\<lambda>tag.
               make_material_block ev tag block_id [Hole block_id]))) items)))
       else return ()))))))"

definition imprint_and_merge :: "env \<Rightarrow> pyval \<Rightarrow> unit prog" where
  "imprint_and_merge ev export_dict =
     andthen (getitem export_dict ''skip_imprint'') (\<lambda>skip_imprint.
     andthen (test skip_imprint) (\<lambda>t.
       if t then
         andthen (attr invessel_build) (\<lambda>b.
         andthen (getmethod b) (\<lambda>r.
         andthen (ext ev (Merge_layer_surfaces r)) (\<lambda>_.
           return ())))
       else
         andthen (cmd ev [Lit ''imprint volume all'']) (\<lambda>_.
           cmd ev [Lit ''merge volume all''])))"

definition export_legacy :: "env \<Rightarrow> pyval \<Rightarrow> unit prog" where
  "export_legacy ev export_dict =
     andthen (tag_materials_legacy ev) (\<lambda>_.
     andthen (getitem export_dict ''faceting_tolerance'') (\<lambda>faceting_tolerance.
     andthen (getitem export_dict ''length_tolerance'') (\<lambda>length_tolerance.
     andthen (getitem export_dict ''normal_tolerance'') (\<lambda>normal_tolerance.
     andthen (getitem export_dict ''filename'') (\<lambda>filename.
     andthen (getitem export_dict ''export_dir'') (\<lambda>dir.
     andthen (ext ev (Export_dagmc_cubit_legacy
                [(''faceting_tolerance'', faceting_tolerance),
                 (''length_tolerance'', length_tolerance),
                 (''normal_tolerance'', normal_tolerance),
                 (''filename'', filename), (''export_dir'', dir)])) (\<lambda>_.
       return ())))))))"

definition export_native :: "env \<Rightarrow> pyval \<Rightarrow> unit prog" where
  "export_native ev export_dict =
     andthen (tag_materials_native ev) (\<lambda>_.
     andthen (getitem export_dict ''anisotropic_ratio'') (\<lambda>anisotropic_ratio.
     andthen (getitem export_dict ''deviation_angle'') (\<lambda>deviation_angle.
     andthen (getitem export_dict ''filename'') (\<lambda>filename.
     andthen (getitem export_dict ''export_dir'') (\<lambda>dir.
     andthen (ext ev (Export_dagmc_cubit_native
                [(''anisotropic_ratio'', anisotropic_ratio),
                 (''deviation_angle'', deviation_angle),
                 (''filename'', filename), (''export_dir'', dir)])) (\<lambda>_.
       return ()))))))"

definition tag_and_export :: "env \<Rightarrow> pyval \<Rightarrow> unit prog" where
  "tag_and_export ev export_dict =
     andthen (getitem export_dict ''legacy_faceting'') (\<lambda>legacy_faceting.
     andthen (test legacy_faceting) (\<lambda>t.
       if t then export_legacy ev export_dict else export_native ev export_dict))"

text \<open>
  \<^verbatim>\<open>export_dagmc\<close>: its two \<^verbatim>\<open>if\<close> statements are \<open>imprint_and_merge\<close> and
  \<open>tag_and_export\<close> above, in the order of the source; \<open>export_legacy\<close> and
  \<open>export_native\<close> are the two branches of the second one.
\<close>

definition export_dagmc :: "env \<Rightarrow> pyval \<Rightarrow> unit prog" where
  "export_dagmc ev dagmc_export_arg =
     andthen (ext ev Init_cubit) (\<lambda>_.
     andthen logger (\<lambda>lg.
     andthen (logger_info ev lg [Lit ''Exporting DAGMC neutronics model...'']) (\<lambda>_.
     andthen (set_dagmc_export dagmc_export_arg) (\<lambda>_.
     andthen get_dagmc_export (\<lambda>export_dict.
     andthen (attr invessel_build) (\<lambda>b.
     andthen (test b) (\<lambda>t.
     andthen (if t then import_ivb_step ev else return ()) (\<lambda>_.
     andthen (imprint_and_merge ev export_dict) (\<lambda>_.
       tag_and_export ev export_dict)))))))))"

section \<open>The command line script\<close>

text \<open>
  \<^verbatim>\<open>parse_args()\<close> hands the command line to \<^verbatim>\<open>argparse\<close>; the script uses the \<^verbatim>\<open>filename\<close>
  attribute of what it returns, and that is what the model returns.
\<close>

definition parse_args :: "env \<Rightarrow> pyval prog" where
  "parse_args ev = ext ev Parse_args"

definition read_yaml_config ::
  "env \<Rightarrow> pyval \<Rightarrow> (pyval \<times> pyval \<times> pyval \<times> pyval \<times> pyval) prog" where
  "read_yaml_config ev filename =
     andthen (ext ev (Open_file filename)) (\<lambda>yaml_file.
     andthen (ext ev (Safe_load yaml_file)) (\<lambda>all_data.
     andthen (getitem all_data ''vmec_file'') (\<lambda>v.
     andthen (getitem all_data ''invessel_build'') (\<lambda>i.
     andthen (getitem all_data ''magnet_coils'') (\<lambda>m.
     andthen (getitem all_data ''source_mesh'') (\<lambda>s.
     andthen (getitem all_data ''dagmc_export'') (\<lambda>x.
       return (v, i, m, s, x))))))))"

definition parastell :: "env \<Rightarrow> unit prog" where
  "parastell ev =
     andthen (parse_args ev) (\<lambda>filename.
     andthen (read_yaml_config ev filename) (\<lambda>(vmec_file_cfg, invessel_build_cfg, magnets,
                                              source, dagmc_export_cfg).
     andthen (Stellarator_init ev vmec_file_cfg PyNone) (\<lambda>_.
     andthen (construct_invessel_build ev invessel_build_cfg) (\<lambda>_.
     andthen (export_invessel_build ev invessel_build_cfg) (\<lambda>_.
     andthen (construct_magnets ev magnets) (\<lambda>_.
     andthen (export_magnets ev magnets) (\<lambda>_.
     andthen (construct_source_mesh ev source) (\<lambda>_.
     andthen (export_source_mesh ev source) (\<lambda>_.
       export_dagmc ev dagmc_export_cfg)))))))))"

section \<open>Sample states\<close>

text \<open>
  Concrete inputs on which the properties below are exercised: an empty state; a store
  with one user dictionary; an outside world \<open>ev0\<close> in which no call raises; the store
  \<open>st_cfg\<close> a configuration file loads to (object 0 is the loaded document, objects 1 to 4
  its sections, 5 the radial build, 6 a list, 7 the data of the one layer); the state
  \<open>st_init\<close> after \<^verbatim>\<open>Stellarator(vmec_file)\<close>; the state \<open>st_magnets\<close> in which only the
  magnets have been built, and \<open>st_built\<close> in which the in-vessel build has been built too
  (objects 12 and 13 are two export dictionaries).
\<close>

definition st0 :: state where
  "st0 = \<lparr>heap = [], trace = [], p_logger = None, p_vmec_file = None, vmec = None,
          invessel_build = None, magnet_set = None, source_mesh = None, ivb_dict = None,
          magnets_dict = None, source_dict = None, dagmc_export = None\<rparr>"

definition user_cfg :: dict where
  "user_cfg = [(''repeat'', PyInt 2), (''wall_s'', PyInt 1)]"

definition st_user :: state where
  "st_user = st0\<lparr>heap := [Dict user_cfg]\<rparr>"

definition ev0 :: env where
  "ev0 = \<lparr>raises = (\<lambda>h c. False),
          result = (\<lambda>h c. case c of
                      Parse_args \<Rightarrow> PyStr ''config.yaml''
                    | Open_file n \<Rightarrow> PyRef 6
                    | Safe_load f \<Rightarrow> PyRef 0
                    | Import_step_cubit n d \<Rightarrow> PyInt (int (length h))
                    | _ \<Rightarrow> PyNone),
          radial_build = (\<lambda>h r. PyRef 5),
          export_dir = (\<lambda>h r. PyStr []),
          volume_ids = (\<lambda>h r. [3, 4]),
          mat_tag = (\<lambda>h r. PyStr ''magnets'')\<rparr>"

definition st_cfg :: state where
  "st_cfg = st0\<lparr>heap :=
     [Dict [(''vmec_file'', PyStr ''wout_vmec.nc''), (''invessel_build'', PyRef 1),
            (''magnet_coils'', PyRef 2), (''source_mesh'', PyRef 3),
            (''dagmc_export'', PyRef 4)],
      Dict [(''toroidal_angles'', PyRef 6), (''poloidal_angles'', PyRef 6),
            (''radial_build'', PyRef 5), (''wall_s'', PyInt 1)],
      Dict [(''coils_file_path'', PyStr ''coils.txt''), (''start_line'', PyInt 3),
            (''cross_section'', PyRef 6), (''toroidal_extent'', PyInt 90)],
      Dict [(''num_s'', PyInt 3), (''num_theta'', PyInt 4), (''num_phi'', PyInt 2),
            (''toroidal_extent'', PyInt 90)],
      Dict [],
      Dict [(''first_wall'', PyRef 7)],
      Opaque True,
      Dict [(''mat_tag'', PyStr ''iron'')]]\<rparr>"

definition st_init :: state where
  "st_init = st_cfg\<lparr>heap := heap st_cfg @ [Logger True, Opaque True],
               trace := [Parse_args, Open_file (PyStr ''config.yaml''), Safe_load (PyRef 6),
                         VMECData (PyStr ''wout_vmec.nc'')],
               p_logger := Some (PyRef 8), p_vmec_file := Some (PyStr ''wout_vmec.nc''),
               vmec := Some (PyRef 9), invessel_build := Some PyNone,
               magnet_set := Some PyNone, source_mesh := Some PyNone\<rparr>"

definition st_magnets :: state where
  "st_magnets = st_init\<lparr>heap := heap st_init @
                   [Opaque True, Opaque True, Dict [(''legacy_faceting'', PyBool False)],
                    Dict [(''skip_imprint'', PyBool True)]],
                 magnet_set := Some (PyRef 11)\<rparr>"

definition st_built :: state where
  "st_built = st_magnets\<lparr>invessel_build := Some (PyRef 10)\<rparr>"

section \<open>Properties\<close>

text \<open>
  \<open>merged defs d m\<close>: in \<open>m\<close>, a key of \<open>d\<close> has the value \<open>d\<close> gives it, and any other key
  has its default, if it has one.
\<close>

definition merged :: "dict \<Rightarrow> dict \<Rightarrow> dict \<Rightarrow> bool" where
  "merged defs d m =
     (\<forall>k. map_of m k = (case map_of d k of Some x \<Rightarrow> Some x | None \<Rightarrow> map_of defs k))"

text \<open>A usable logger: the \<^verbatim>\<open>logger\<close> property is a logger object with handlers.\<close>

definition usable_logger :: "state \<Rightarrow> bool" where
  "usable_logger st = (\<exists>l. logger st = (Return l, st) \<and> l \<noteq> PyNone \<and> deref st l = Some (Logger True))"

text \<open>
  The five sections of the configuration file, and the value a loaded object has for a
  key (\<open>None\<close> when the object is no dictionary or lacks the key).
\<close>

definition sections :: "string list" where
  "sections = [''vmec_file'', ''invessel_build'', ''magnet_coils'', ''source_mesh'', ''dagmc_export'']"

definition lookup :: "state \<Rightarrow> pyval \<Rightarrow> string \<Rightarrow> pyval option" where
  "lookup st v k =
     (case deref st v of
        Some (Dict d) \<Rightarrow> map_of d k
      | _ \<Rightarrow> None)"

text \<open>
  \<open>noraise ev h evs\<close>: made after the calls \<open>h\<close>, none of the calls \<open>evs\<close> raises.
  \<open>failfast ev h evs r\<close>: no call was made after a call that raised, and a run that
  returned has seen no call raise. \<open>emits ev P m\<close>: every call \<open>m\<close> makes satisfies \<open>P\<close>, and
  its calls are fail-fast. \<open>silent m\<close>: \<open>m\<close> makes no call. \<open>calls m\<close>: a run of \<open>m\<close> that
  returns has made at least one call.

  The stages of the script are numbered: 0 is reading the configuration and creating the
  \<^verbatim>\<open>Stellarator\<close>, 1 the in-vessel build construction, 2 its export, 3 the magnet
  construction, 4 the magnet export, 5 the source-mesh construction, 6 its export, 7 the
  DAGMC export. \<open>staged ev k m\<close>: the calls of \<open>m\<close> are made in the order of their stages,
  none belongs to a stage before \<open>k\<close>, and they are fail-fast.
\<close>

primrec noraise :: "env \<Rightarrow> call list \<Rightarrow> call list \<Rightarrow> bool" where
  "noraise ev h [] = True"
| "noraise ev h (c # cs) = (\<not> raises ev h c \<and> noraise ev (h @ [c]) cs)"

definition failfast :: "env \<Rightarrow> call list \<Rightarrow> call list \<Rightarrow> 'a outcome \<Rightarrow> bool" where
  "failfast ev h evs r =
     (case r of
        Return _ \<Rightarrow> noraise ev h evs
      | Raise _ \<Rightarrow> noraise ev h (butlast evs))"

definition emits :: "env \<Rightarrow> (call \<Rightarrow> bool) \<Rightarrow> 'a prog \<Rightarrow> bool" where
  "emits ev P m =
     (\<forall>st. \<exists>evs. trace (snd (m st)) = trace st @ evs \<and> list_all P evs
                \<and> failfast ev (trace st) evs (fst (m st)))"

definition silent :: "'a prog \<Rightarrow> bool" where
  "silent m = (\<forall>st. trace (snd (m st)) = trace st)"

fun stage_num :: "call \<Rightarrow> nat" where
  "stage_num (InVesselBuild _ _) = 1"
| "stage_num (Populate_surfaces _) = 1"
| "stage_num (Calculate_loci _) = 1"
| "stage_num (Generate_components _) = 1"
| "stage_num (InVesselBuild_export_step _ _) = 2"
| "stage_num (InVesselBuild_export_cad_to_dagmc _ _) = 2"
| "stage_num (MagnetSet _ _) = 3"
| "stage_num (Build_magnet_coils _) = 3"
| "stage_num (MagnetSet_export_step _ _) = 4"
| "stage_num (Mesh_magnets _) = 4"
| "stage_num (MagnetSet_export_mesh _ _) = 4"
| "stage_num (SourceMesh _ _) = 5"
| "stage_num (Create_vertices _) = 5"
| "stage_num (Create_mesh _) = 5"
| "stage_num (SourceMesh_export_mesh _ _) = 6"
| "stage_num Init_cubit = 7"
| "stage_num (Logger_info _) = 7"
| "stage_num (Import_step_cubit _ _) = 7"
| "stage_num (Merge_layer_surfaces _) = 7"
| "stage_num (Cubit_cmd _) = 7"
| "stage_num (Export_dagmc_cubit_legacy _) = 7"
| "stage_num (Export_dagmc_cubit_native _) = 7"
| "stage_num _ = 0"

definition staged :: "env \<Rightarrow> nat \<Rightarrow> 'a prog \<Rightarrow> bool" where
  "staged ev k m =
     (\<forall>st. \<exists>evs. trace (snd (m st)) = trace st @ evs \<and> sorted (map stage_num evs)
                \<and> list_all (\<lambda>c. k \<le> stage_num c) evs
                \<and> failfast ev (trace st) evs (fst (m st)))"

definition calls :: "'a prog \<Rightarrow> bool" where
  "calls m =
     (\<forall>st. (\<exists>x. fst (m st) = Return x) \<longrightarrow> length (trace st) < length (trace (snd (m st))))"

text \<open>
  The seven stages of the script in their order, and running a list of stages one after
  the other.
\<close>

definition pipeline :: "env \<Rightarrow> pyval \<Rightarrow> pyval \<Rightarrow> pyval \<Rightarrow> pyval \<Rightarrow> unit prog list" where
  "pipeline ev i m s x =
     [construct_invessel_build ev i, export_invessel_build ev i,
      construct_magnets ev m, export_magnets ev m,
      construct_source_mesh ev s, export_source_mesh ev s,
      export_dagmc ev x]"

definition run_stages :: "unit prog list \<Rightarrow> unit prog" where
  "run_stages ps = for_each (\<lambda>p. p) ps"

text \<open>
  The calls of the two faceting strategies: the legacy strategy tags materials with
  \<^verbatim>\<open>group "mat:..."\<close> commands and exports with \<^verbatim>\<open>export_dagmc_cubit_legacy\<close>; the native
  strategy tags with material blocks and exports with \<^verbatim>\<open>export_dagmc_cubit_native\<close>.
  \<open>configured defs kv k\<close> is the value of key \<open>k\<close> after merging the user's items \<open>kv\<close> into
  the defaults. The calls of the two surface-merging strategies are \<open>merge_call\<close> and
  \<open>imprint_call\<close>. \<open>heap_kept m\<close>: \<open>m\<close> leaves the store as it is. \<open>one_strategy m\<close>: the calls
  of \<open>m\<close> do not mix the two faceting strategies.
\<close>

fun legacy_call :: "call \<Rightarrow> bool" where
  \<open>legacy_call (Export_dagmc_cubit_legacy kw) = True\<close>
| \<open>legacy_call (Cubit_cmd (Lit s # rest)) = (s = ''group "mat:'')\<close>
| \<open>legacy_call c = False\<close>

fun native_call :: "call \<Rightarrow> bool" where
  \<open>native_call (Export_dagmc_cubit_native kw) = True\<close>
| \<open>native_call (Cubit_cmd (Lit s # rest)) =
     (s = ''set duplicate block elements off'' \<or> s = ''create material "'' \<or> s = ''block '')\<close>
| \<open>native_call c = False\<close>

definition configured :: "dict \<Rightarrow> dict \<Rightarrow> string \<Rightarrow> pyval" where
  "configured defs kv k =
     (case map_of kv k of
        Some x \<Rightarrow> x
      | None \<Rightarrow> (case map_of defs k of Some x \<Rightarrow> x | None \<Rightarrow> PyNone))"

fun merge_call :: "call \<Rightarrow> bool" where
  "merge_call (Merge_layer_surfaces b) = True"
| "merge_call c = False"

fun imprint_call :: "call \<Rightarrow> bool" where
  "imprint_call (Cubit_cmd [Lit s]) = (s = ''imprint volume all'' \<or> s = ''merge volume all'')"
| "imprint_call c = False"

definition heap_kept :: "'a prog \<Rightarrow> bool" where
  "heap_kept m = (\<forall>st. heap (snd (m st)) = heap st)"

definition one_strategy :: "'a prog \<Rightarrow> bool" where
  "one_strategy m =
     (\<forall>st. \<exists>evs. trace (snd (m st)) = trace st @ evs
                \<and> (list_all (\<lambda>c. \<not> native_call c) evs \<or> list_all (\<lambda>c. \<not> legacy_call c) evs))"

subsection \<open>Dictionaries\<close>

lemma map_of_update_items:
  "distinct (map fst other) \<Longrightarrow> map_of (update_items other d) = map_of d ++ map_of other"
proof (induction other arbitrary: d)
  case Nil
  then show ?case by (simp add: update_items_def)
next
  case (Cons p other)
  obtain k x where p: "p = (k, x)" by (cases p)
  from Cons.prems p have notin: "map_of other k = None"
    by (simp add: map_of_eq_None_iff)
  from Cons.prems have "distinct (map fst other)" by simp
  then have "map_of (update_items other (AList.update k x d)) = map_of (AList.update k x d) ++ map_of other"
    by (rule Cons.IH)
  then show ?case using notin
    by (auto simp: p update_items_def update_conv' map_add_def fun_eq_iff split: option.splits)
qed

lemma merged_update_items:
  "distinct (map fst d) \<Longrightarrow> merged defs d (update_items d defs)"
  by (simp add: merged_def map_of_update_items map_add_def split: option.splits)

lemma deref_SomeD:
  "deref st v = Some ob \<Longrightarrow> \<exists>a. v = PyRef a \<and> a < length (heap st) \<and> heap st ! a = ob"
  by (auto simp: deref_def split: pyval.splits if_splits)

lemmas dict_defs = andthen_def alloc_def dict_copy_def as_dict_def deref_def
  assign_def attr_def dict_update_def store_dict_def nth_append list_update_append

lemma set_invessel_build_dict_result:
  assumes "deref st d = Some (Dict kv)"
  shows "set_invessel_build_dict d st =
     (Return (), st\<lparr>heap := heap st @ [Dict invessel_build_def, Dict (update_items kv invessel_build_def)],
                    ivb_dict := Some (PyRef (Suc (length (heap st))))\<rparr>)"
proof -
  from deref_SomeD[OF assms] obtain a where "d = PyRef a" "a < length (heap st)" "heap st ! a = Dict kv"
    by blast
  then show ?thesis
    by (simp add: set_invessel_build_dict_def dict_defs)
qed

lemma set_magnets_dict_result:
  assumes "deref st d = Some (Dict kv)"
  shows "set_magnets_dict d st =
     (Return (), st\<lparr>heap := heap st @ [Dict magnets_def, Dict (update_items kv magnets_def)],
                    magnets_dict := Some (PyRef (Suc (length (heap st))))\<rparr>)"
proof -
  from deref_SomeD[OF assms] obtain a where "d = PyRef a" "a < length (heap st)" "heap st ! a = Dict kv"
    by blast
  then show ?thesis
    by (simp add: set_magnets_dict_def dict_defs)
qed

lemma set_source_dict_result:
  assumes "deref st d = Some (Dict kv)"
  shows "set_source_dict d st =
     (Return (), st\<lparr>heap := heap st @ [Dict source_def, Dict (update_items kv source_def)],
                    source_dict := Some (PyRef (Suc (length (heap st))))\<rparr>)"
proof -
  from deref_SomeD[OF assms] obtain a where "d = PyRef a" "a < length (heap st)" "heap st ! a = Dict kv"
    by blast
  then show ?thesis
    by (simp add: set_source_dict_def dict_defs)
qed

lemma set_dagmc_export_result:
  assumes "deref st d = Some (Dict kv)"
  shows "set_dagmc_export d st =
     (Return (), st\<lparr>heap := heap st @ [Dict dagmc_export_def, Dict (update_items kv dagmc_export_def)],
                    dagmc_export := Some (PyRef (Suc (length (heap st))))\<rparr>)"
proof -
  from deref_SomeD[OF assms] obtain a where "d = PyRef a" "a < length (heap st)" "heap st ! a = Dict kv"
    by blast
  then show ?thesis
    by (simp add: set_dagmc_export_def dict_defs)
qed

text \<open>
  Claim C2. For a user configuration dictionary \<open>d\<close>, each of
  \<^verbatim>\<open>set_invessel_build_dict\<close>, \<^verbatim>\<open>set_magnets_dict\<close> and \<^verbatim>\<open>set_source_dict\<close> returns normally
  and stores a dictionary in which every key of \<open>d\<close> has the value of \<open>d\<close> and every other
  key has its default; the following \<^verbatim>\<open>get\<close> call returns that dictionary. The defaults are
  \<^verbatim>\<open>repeat = 0\<close>, \<^verbatim>\<open>num_ribs = 61\<close>, \<^verbatim>\<open>num_rib_pts = 61\<close> for the in-vessel build,
  \<^verbatim>\<open>sample_mod = 1\<close> for the magnets, and \<^verbatim>\<open>scale = m2cm = 100\<close> for all three.
\<close>

theorem merged_config_dicts:
  assumes "deref st d = Some (Dict kv)" and "distinct (map fst kv)"
  shows "(\<exists>st' r m. set_invessel_build_dict d st = (Return (), st')
            \<and> get_invessel_build_dict st' = (Return r, st')
            \<and> deref st' r = Some (Dict m) \<and> merged invessel_build_def kv m)
       \<and> (\<exists>st' r m. set_magnets_dict d st = (Return (), st')
            \<and> get_magnets_dict st' = (Return r, st')
            \<and> deref st' r = Some (Dict m) \<and> merged magnets_def kv m)
       \<and> (\<exists>st' r m. set_source_dict d st = (Return (), st')
            \<and> get_source_dict st' = (Return r, st')
            \<and> deref st' r = Some (Dict m) \<and> merged source_def kv m)
       \<and> map_of invessel_build_def ''repeat'' = Some (PyInt 0)
       \<and> map_of invessel_build_def ''num_ribs'' = Some (PyInt 61)
       \<and> map_of invessel_build_def ''num_rib_pts'' = Some (PyInt 61)
       \<and> map_of invessel_build_def ''scale'' = Some m2cm
       \<and> map_of magnets_def ''sample_mod'' = Some (PyInt 1)
       \<and> map_of magnets_def ''scale'' = Some m2cm
       \<and> map_of source_def ''scale'' = Some m2cm
       \<and> m2cm = PyInt 100"
proof -
  note m = merged_update_items[OF assms(2)]
  have 1: "\<exists>st' r m. set_invessel_build_dict d st = (Return (), st')
            \<and> get_invessel_build_dict st' = (Return r, st')
            \<and> deref st' r = Some (Dict m) \<and> merged invessel_build_def kv m"
    using m by (simp add: set_invessel_build_dict_result[OF assms(1)] get_invessel_build_dict_def
        attr_def deref_def nth_append)
  have 2: "\<exists>st' r m. set_magnets_dict d st = (Return (), st')
            \<and> get_magnets_dict st' = (Return r, st')
            \<and> deref st' r = Some (Dict m) \<and> merged magnets_def kv m"
    using m by (simp add: set_magnets_dict_result[OF assms(1)] get_magnets_dict_def
        attr_def deref_def nth_append)
  have 3: "\<exists>st' r m. set_source_dict d st = (Return (), st')
            \<and> get_source_dict st' = (Return r, st')
            \<and> deref st' r = Some (Dict m) \<and> merged source_def kv m"
    using m by (simp add: set_source_dict_result[OF assms(1)] get_source_dict_def
        attr_def deref_def nth_append)
  have 4: "map_of invessel_build_def ''repeat'' = Some (PyInt 0)
       \<and> map_of invessel_build_def ''num_ribs'' = Some (PyInt 61)
       \<and> map_of invessel_build_def ''num_rib_pts'' = Some (PyInt 61)
       \<and> map_of invessel_build_def ''scale'' = Some m2cm
       \<and> map_of magnets_def ''sample_mod'' = Some (PyInt 1)
       \<and> map_of magnets_def ''scale'' = Some m2cm
       \<and> map_of source_def ''scale'' = Some m2cm
       \<and> m2cm = PyInt 100"
    by (simp add: invessel_build_def_def magnets_def_def source_def_def m2cm_def)
  from 1 2 3 4 show ?thesis by blast
qed

theorem merged_config_dicts_witness:
  "deref st_user (PyRef 0) = Some (Dict user_cfg) \<and> distinct (map fst user_cfg)
   \<and> (\<exists>st' r m. set_invessel_build_dict (PyRef 0) st_user = (Return (), st')
            \<and> get_invessel_build_dict st' = (Return r, st')
            \<and> deref st' r = Some (Dict m) \<and> merged invessel_build_def user_cfg m)"
proof -
  have h1: "deref st_user (PyRef 0) = Some (Dict user_cfg)"
    by (simp add: deref_def st_user_def st0_def)
  have h2: "distinct (map fst user_cfg)"
    by (simp add: user_cfg_def)
  from merged_config_dicts[OF h1 h2] h1 h2 show ?thesis by blast
qed

text \<open>
  Claim C10. The calls \<^verbatim>\<open>set_invessel_build_dict(d)\<close>, \<^verbatim>\<open>set_magnets_dict(d)\<close>,
  \<^verbatim>\<open>set_source_dict(d)\<close> and \<^verbatim>\<open>set_dagmc_export(d)\<close> leave the dictionary \<open>d\<close> itself as it
  was: the merge writes to a copy of the defaults only.
\<close>

theorem setters_leave_argument_unchanged:
  assumes "deref st d = Some (Dict kv)"
  shows "deref (snd (set_invessel_build_dict d st)) d = Some (Dict kv)
       \<and> deref (snd (set_magnets_dict d st)) d = Some (Dict kv)
       \<and> deref (snd (set_source_dict d st)) d = Some (Dict kv)
       \<and> deref (snd (set_dagmc_export d st)) d = Some (Dict kv)"
proof -
  from deref_SomeD[OF assms] obtain a
    where a: "d = PyRef a" and lt: "a < length (heap st)" and nth: "heap st ! a = Dict kv"
    by blast
  from assms a have da: "deref st (PyRef a) = Some (Dict kv)" by simp
  show ?thesis unfolding a using lt nth
    by (simp add: set_invessel_build_dict_result[OF da] set_magnets_dict_result[OF da]
        set_source_dict_result[OF da] set_dagmc_export_result[OF da] deref_def nth_append)
qed

theorem setters_leave_argument_unchanged_witness:
  "deref st_user (PyRef 0) = Some (Dict user_cfg)
   \<and> deref (snd (set_invessel_build_dict (PyRef 0) st_user)) (PyRef 0) = Some (Dict user_cfg)
   \<and> deref (snd (set_magnets_dict (PyRef 0) st_user)) (PyRef 0) = Some (Dict user_cfg)
   \<and> deref (snd (set_source_dict (PyRef 0) st_user)) (PyRef 0) = Some (Dict user_cfg)
   \<and> deref (snd (set_dagmc_export (PyRef 0) st_user)) (PyRef 0) = Some (Dict user_cfg)"
proof -
  have h1: "deref st_user (PyRef 0) = Some (Dict user_cfg)"
    by (simp add: deref_def st_user_def st0_def)
  from setters_leave_argument_unchanged[OF h1] h1 show ?thesis by blast
qed


subsection \<open>The vmec\_file and logger properties\<close>

lemma andthen_Raise: "m st = (Raise e, st') \<Longrightarrow> andthen m f st = (Raise e, st')"
  by (simp add: andthen_def)

lemma andthen_Return: "m st = (Return x, st') \<Longrightarrow> andthen m f st = f x st'"
  by (simp add: andthen_def)

lemma vmec_file_setter_cases:
  "vmec_file_setter ev (PyStr s) st =
     (if suffix s = ''.nc'' then (Return (), st\<lparr>p_vmec_file := Some (PyStr s)\<rparr>)
      else case p_logger st of
             None \<Rightarrow> (Raise AttributeError, st\<lparr>p_vmec_file := Some (PyStr s)\<rparr>)
           | Some lg \<Rightarrow>
               (case deref st lg of
                  Some (Logger h) \<Rightarrow>
                    (if raises ev (trace st) (Logger_error (extension_message (suffix s)))
                     then Raise (ExternalError (Logger_error (extension_message (suffix s))))
                     else Raise (AssertionError (extension_message (suffix s))),
                     st\<lparr>p_vmec_file := Some (PyStr s),
                        trace := trace st @ [Logger_error (extension_message (suffix s))]\<rparr>)
                | _ \<Rightarrow> (Raise AttributeError, st\<lparr>p_vmec_file := Some (PyStr s)\<rparr>)))"
  by (simp add: vmec_file_setter_def andthen_def assign_def attr_def Path_suffix_def return_def
      raise_def logger_error_def ext_def Let_def deref_def
      split: option.splits obj.splits pyval.splits)

lemma vmec_file_setter_raises:
  "suffix s \<noteq> ''.nc'' \<Longrightarrow>
     \<exists>e st'. vmec_file_setter ev (PyStr s) st = (Raise e, st') \<and> p_vmec_file st' = Some (PyStr s)"
  by (simp add: vmec_file_setter_cases split: option.splits obj.splits)

text \<open>
  Claim C1. Assigning a path whose extension (\<^verbatim>\<open>Path(file).suffix\<close>) is not \<^verbatim>\<open>.nc\<close> to the
  \<^verbatim>\<open>vmec_file\<close> property raises, and so does constructing a \<^verbatim>\<open>Stellarator\<close> with it;
  assigning a path whose extension is \<^verbatim>\<open>.nc\<close> returns without raising.
\<close>

theorem vmec_file_extension_enforced:
  "(suffix s \<noteq> ''.nc'' \<longrightarrow>
      (\<exists>e. fst (vmec_file_setter ev (PyStr s) st) = Raise e)
      \<and> (\<exists>e. fst (Stellarator_init ev (PyStr s) lo st) = Raise e))
   \<and> (suffix s = ''.nc'' \<longrightarrow> fst (vmec_file_setter ev (PyStr s) st) = Return ())"
proof (intro conjI impI)
  assume ne: "suffix s \<noteq> ''.nc''"
  from vmec_file_setter_raises[OF ne] show "\<exists>e. fst (vmec_file_setter ev (PyStr s) st) = Raise e"
    by (metis fst_conv)
  show "\<exists>e. fst (Stellarator_init ev (PyStr s) lo st) = Raise e"
  proof (cases "logger_setter lo st")
    case (Pair r st1)
    show ?thesis
    proof (cases r)
      case (Return u)
      from vmec_file_setter_raises[OF ne, of ev st1]
      obtain e st2 where "vmec_file_setter ev (PyStr s) st1 = (Raise e, st2)" by blast
      with Pair Return show ?thesis
        by (simp add: Stellarator_init_def andthen_def)
    next
      case (Raise e)
      with Pair show ?thesis
        by (simp add: Stellarator_init_def andthen_def)
    qed
  qed
next
  assume "suffix s = ''.nc''"
  then show "fst (vmec_file_setter ev (PyStr s) st) = Return ()"
    by (simp add: vmec_file_setter_cases)
qed

lemma suffix_wout_txt: "suffix ''wout.txt'' = ''.txt''"
  by (simp add: suffix_def path_name_def rfind_def)

lemma suffix_plasma_nc: "suffix ''data/wout_vmec.nc'' = ''.nc''"
  by (simp add: suffix_def path_name_def rfind_def)

theorem vmec_file_extension_enforced_witness:
  "suffix ''wout.txt'' \<noteq> ''.nc''
   \<and> (\<exists>e. fst (vmec_file_setter ev0 (PyStr ''wout.txt'') st0) = Raise e)
   \<and> (\<exists>e. fst (Stellarator_init ev0 (PyStr ''wout.txt'') PyNone st0) = Raise e)
   \<and> suffix ''data/wout_vmec.nc'' = ''.nc''
   \<and> fst (vmec_file_setter ev0 (PyStr ''data/wout_vmec.nc'') st0) = Return ()"
proof -
  have h1: "suffix ''wout.txt'' \<noteq> ''.nc''" by (simp add: suffix_wout_txt)
  have h2: "suffix ''data/wout_vmec.nc'' = ''.nc''" by (simp add: suffix_plasma_nc)
  from vmec_file_extension_enforced[of "''wout.txt''" ev0 st0 PyNone]
    vmec_file_extension_enforced[of "''data/wout_vmec.nc''" ev0 st0 PyNone] h1 h2
  show ?thesis by blast
qed

text \<open>
  Claim C9. When the assignment of a path with another extension than \<^verbatim>\<open>.nc\<close> raises, the
  path has already been stored: reading the \<^verbatim>\<open>vmec_file\<close> property afterwards returns the
  rejected path, whatever the previous value was.
\<close>

theorem failed_assignment_keeps_invalid_path:
  "suffix s \<noteq> ''.nc'' \<Longrightarrow>
     \<exists>e st'. vmec_file_setter ev (PyStr s) st = (Raise e, st')
            \<and> vmec_file st' = (Return (PyStr s), st')"
  using vmec_file_setter_raises[of s ev st]
  by (auto simp: vmec_file_def attr_def)

theorem failed_assignment_keeps_invalid_path_witness:
  "suffix ''wout.txt'' \<noteq> ''.nc''
   \<and> (\<exists>e st'. vmec_file_setter ev0 (PyStr ''wout.txt'') (st0\<lparr>p_vmec_file := Some (PyStr ''a.nc'')\<rparr>) = (Raise e, st')
            \<and> vmec_file st' = (Return (PyStr ''wout.txt''), st'))"
proof -
  have h1: "suffix ''wout.txt'' \<noteq> ''.nc''" by (simp add: suffix_wout_txt)
  from failed_assignment_keeps_invalid_path[OF h1] h1 show ?thesis by blast
qed

lemma logger_setter_result:
  "logger_setter lo st =
     (if lo = PyNone then (Return (), st\<lparr>p_logger := Some (PyRef (length (heap st))), heap := heap st @ [Logger True]\<rparr>)
      else case deref st lo of
             Some (Logger h) \<Rightarrow>
               (if h then (Return (), st\<lparr>p_logger := Some lo\<rparr>)
                else (Return (), st\<lparr>p_logger := Some (PyRef (length (heap st))), heap := heap st @ [Logger True]\<rparr>))
           | _ \<Rightarrow> (Raise AttributeError, st\<lparr>p_logger := Some lo\<rparr>))"
  by (simp add: logger_setter_def andthen_def assign_def attr_def return_def hasHandlers_def
      log_init_def alloc_def deref_def split: option.splits obj.splits pyval.splits)

lemma deref_PyRef:
  "deref st (PyRef a) = (if a < length (heap st) then Some (heap st ! a) else None)"
  by (simp add: deref_def)

lemma logger_setter_usable:
  assumes "lo = PyNone \<or> (\<exists>h. deref st lo = Some (Logger h))"
  shows "\<exists>st'. logger_setter lo st = (Return (), st') \<and> usable_logger st'"
proof (cases "lo = PyNone")
  case True
  then show ?thesis
    by (simp add: logger_setter_result usable_logger_def logger_def attr_def deref_PyRef)
next
  case False
  with assms obtain h where h: "deref st lo = Some (Logger h)" by blast
  from deref_SomeD[OF h] obtain a
    where a: "lo = PyRef a" "a < length (heap st)" "heap st ! a = Logger h" by blast
  show ?thesis
  proof (cases h)
    case True
    with a False h show ?thesis
      by (simp add: logger_setter_result usable_logger_def logger_def attr_def deref_PyRef)
  next
    case False
    with a h show ?thesis
      by (simp add: logger_setter_result usable_logger_def logger_def attr_def deref_PyRef)
  qed
qed

lemma usable_logger_frame:
  assumes "usable_logger st" and "p_logger st' = p_logger st" and "\<exists>obs. heap st' = heap st @ obs"
  shows "usable_logger st'"
proof -
  from assms(1) obtain l where l: "p_logger st = Some l" "l \<noteq> PyNone" "deref st l = Some (Logger True)"
    by (auto simp: usable_logger_def logger_def attr_def split: option.splits)
  from deref_SomeD[OF l(3)] obtain a
    where a: "l = PyRef a" "a < length (heap st)" "heap st ! a = Logger True" by blast
  from assms(3) obtain obs where "heap st' = heap st @ obs" by blast
  with a l assms(2) show ?thesis
    by (simp add: usable_logger_def logger_def attr_def deref_PyRef nth_append)
qed

lemma Stellarator_init_frame:
  assumes "Stellarator_init ev f lo st = (Return (), st')"
  shows "\<exists>st1. logger_setter lo st = (Return (), st1) \<and> p_logger st' = p_logger st1
           \<and> (\<exists>obs. heap st' = heap st1 @ obs)"
proof (cases "logger_setter lo st")
  case (Pair r st1)
  show ?thesis
  proof (cases r)
    case (Raise e)
    with Pair assms show ?thesis by (simp add: Stellarator_init_def andthen_def)
  next
    case (Return u)
    with Pair assms have
      "andthen (vmec_file_setter ev f) (\<lambda>_.
        andthen vmec_file (\<lambda>f.
        andthen (construct ev (VMECData f)) (\<lambda>v.
        andthen (assign (\<lambda>st. st\<lparr>vmec := Some v\<rparr>)) (\<lambda>_.
        andthen (assign (\<lambda>st. st\<lparr>invessel_build := Some PyNone\<rparr>)) (\<lambda>_.
        andthen (assign (\<lambda>st. st\<lparr>magnet_set := Some PyNone\<rparr>)) (\<lambda>_.
          assign (\<lambda>st. st\<lparr>source_mesh := Some PyNone\<rparr>))))))) st1 = (Return (), st')"
      by (simp add: Stellarator_init_def andthen_def)
    then have "p_logger st' = p_logger st1 \<and> (\<exists>obs. heap st' = heap st1 @ obs)"
      by (auto simp: vmec_file_setter_def andthen_def assign_def attr_def Path_suffix_def return_def
          raise_def logger_error_def ext_def Let_def vmec_file_def construct_def alloc_def
          split: option.splits obj.splits pyval.splits if_splits prod.splits outcome.splits)
    with Pair Return show ?thesis by simp
  qed
qed

text \<open>
  Claim C8. After assigning \<^verbatim>\<open>None\<close> or any logger object, with or without handlers, to the
  \<^verbatim>\<open>logger\<close> property, the stored logger is not \<^verbatim>\<open>None\<close> and has handlers; hence every
  constructed \<^verbatim>\<open>Stellarator\<close> holds a usable logger.
\<close>

theorem logger_always_usable:
  assumes "lo = PyNone \<or> (\<exists>h. deref st lo = Some (Logger h))"
  shows "(\<exists>st'. logger_setter lo st = (Return (), st') \<and> usable_logger st')
       \<and> (\<forall>st'. Stellarator_init ev f lo st = (Return (), st') \<longrightarrow> usable_logger st')"
proof (intro conjI allI impI)
  from logger_setter_usable[OF assms]
  show "\<exists>st'. logger_setter lo st = (Return (), st') \<and> usable_logger st'" .
next
  fix st' assume "Stellarator_init ev f lo st = (Return (), st')"
  from Stellarator_init_frame[OF this] obtain st1 where
    1: "logger_setter lo st = (Return (), st1)" and 2: "p_logger st' = p_logger st1"
    and 3: "\<exists>obs. heap st' = heap st1 @ obs" by blast
  from logger_setter_usable[OF assms] 1 have "usable_logger st1" by simp
  from usable_logger_frame[OF this 2 3] show "usable_logger st'" .
qed

lemma Stellarator_init_ev0:
  "Stellarator_init ev0 (PyStr ''data/wout_vmec.nc'') PyNone st0 =
     (Return (), st0\<lparr>heap := [Logger True, Opaque True],
        trace := [VMECData (PyStr ''data/wout_vmec.nc'')],
        p_logger := Some (PyRef 0), p_vmec_file := Some (PyStr ''data/wout_vmec.nc''),
        vmec := Some (PyRef 1), invessel_build := Some PyNone, magnet_set := Some PyNone,
        source_mesh := Some PyNone\<rparr>)"
  by (simp add: Stellarator_init_def andthen_def logger_setter_result vmec_file_setter_cases
      suffix_plasma_nc vmec_file_def attr_def construct_def ext_def alloc_def assign_def
      st0_def ev0_def)

theorem logger_always_usable_witness:
  "(PyNone = PyNone \<or> (\<exists>h. deref st0 PyNone = Some (Logger h)))
   \<and> (\<exists>st'. logger_setter PyNone st0 = (Return (), st') \<and> usable_logger st')
   \<and> (\<exists>st'. Stellarator_init ev0 (PyStr ''data/wout_vmec.nc'') PyNone st0 = (Return (), st')
           \<and> usable_logger st')"
proof -
  have h: "PyNone = PyNone \<or> (\<exists>h. deref st0 PyNone = Some (Logger h))" by simp
  from logger_always_usable[OF h, of ev0 "PyStr ''data/wout_vmec.nc''"] h Stellarator_init_ev0
  show ?thesis by metis
qed

subsection \<open>Calls and their order\<close>

named_theorems silent_intros
named_theorems emits_intros

lemma noraise_append:
  "noraise ev h (xs @ ys) = (noraise ev h xs \<and> noraise ev (h @ xs) ys)"
  by (induction xs arbitrary: h) auto

lemma noraise_butlast: "noraise ev h xs \<Longrightarrow> noraise ev h (butlast xs)"
  by (induction xs arbitrary: h) auto

lemma failfast_append:
  "noraise ev h xs \<Longrightarrow> failfast ev (h @ xs) ys r \<Longrightarrow> failfast ev h (xs @ ys) r"
  by (cases r) (auto simp: failfast_def noraise_append butlast_append noraise_butlast)

lemma failfast_Nil [simp]: "failfast ev h [] r"
  by (simp add: failfast_def split: outcome.splits)

lemma silentD: "silent m \<Longrightarrow> m st = (r, st') \<Longrightarrow> trace st' = trace st"
  by (auto simp: silent_def dest: spec[of _ st])

lemma silent_return [silent_intros]: "silent (return x)"
  by (simp add: silent_def return_def)

lemma silent_raise [silent_intros]: "silent (raise e)"
  by (simp add: silent_def raise_def)

lemma silent_attr [silent_intros]: "silent (attr f)"
  by (simp add: silent_def attr_def split: option.splits)

lemma silent_assign [silent_intros]: "(\<And>st. trace (f st) = trace st) \<Longrightarrow> silent (assign f)"
  by (simp add: silent_def assign_def)

lemma silent_andthen [silent_intros]:
  "silent m \<Longrightarrow> (\<And>x. silent (f x)) \<Longrightarrow> silent (andthen m f)"
  by (auto simp: silent_def andthen_def split: prod.splits outcome.splits)
    (metis snd_conv)+

lemma silent_if [silent_intros]: "silent a \<Longrightarrow> silent b \<Longrightarrow> silent (if c then a else b)"
  by simp

lemma silent_alloc [silent_intros]: "silent (alloc ob)"
  by (simp add: silent_def alloc_def)

lemma silent_as_dict [silent_intros]: "silent (as_dict v)"
  by (simp add: silent_def as_dict_def split: option.splits obj.splits)

lemma silent_items_of [silent_intros]: "silent (items_of v)"
  by (simp add: silent_def items_of_def split: option.splits obj.splits)

lemma silent_store_dict [silent_intros]: "silent (store_dict v d)"
  by (simp add: silent_def store_dict_def split: pyval.splits)

lemma silent_case_option [silent_intros]:
  "silent a \<Longrightarrow> (\<And>x. silent (b x)) \<Longrightarrow> silent (case u of None \<Rightarrow> a | Some x \<Rightarrow> b x)"
  by (cases u) auto

lemma silent_getitem [silent_intros]: "silent (getitem v k)"
  unfolding getitem_def by (intro silent_intros)

lemma silent_setitem [silent_intros]: "silent (setitem v k x)"
  unfolding setitem_def by (intro silent_intros)

lemma silent_dict_copy [silent_intros]: "silent (dict_copy v)"
  unfolding dict_copy_def by (intro silent_intros)

lemma silent_dict_update [silent_intros]: "silent (dict_update v other)"
  unfolding dict_update_def by (intro silent_intros)

lemma silent_test [silent_intros]: "silent (test v)"
  by (simp add: silent_def test_def)

lemma silent_getmethod [silent_intros]: "silent (getmethod v)"
  by (cases v) (simp_all add: getmethod_def silent_intros)

lemma silent_read_attr [silent_intros]: "silent (read_attr ev f v)"
  by (simp add: silent_def read_attr_def split: pyval.splits)

lemma silent_py_min [silent_intros]: "silent (py_min xs)"
  by (cases xs) (simp_all add: py_min_def silent_intros)

lemma silent_hasHandlers [silent_intros]: "silent (hasHandlers v)"
  by (simp add: silent_def hasHandlers_def split: option.splits obj.splits)

lemma silent_Path_suffix [silent_intros]: "silent (Path_suffix v)"
  by (cases v) (simp_all add: Path_suffix_def silent_intros)

lemma silent_set_invessel_build_dict [silent_intros]: "silent (set_invessel_build_dict d)"
  unfolding set_invessel_build_dict_def by (intro silent_intros) simp

lemma silent_set_magnets_dict [silent_intros]: "silent (set_magnets_dict d)"
  unfolding set_magnets_dict_def by (intro silent_intros) simp

lemma silent_set_source_dict [silent_intros]: "silent (set_source_dict d)"
  unfolding set_source_dict_def by (intro silent_intros) simp

lemma silent_set_dagmc_export [silent_intros]: "silent (set_dagmc_export d)"
  unfolding set_dagmc_export_def by (intro silent_intros) simp

lemma silent_logger_setter [silent_intros]: "silent (logger_setter lo)"
  unfolding logger_setter_def log_init_def by (intro silent_intros) simp_all

lemma silent_getters [silent_intros]:
  "silent get_invessel_build_dict" "silent get_magnets_dict" "silent get_source_dict"
  "silent get_dagmc_export" "silent logger" "silent vmec_file"
  by (simp_all add: get_invessel_build_dict_def get_magnets_dict_def get_source_dict_def
      get_dagmc_export_def logger_def vmec_file_def silent_intros)

lemma emits_silent: "silent m \<Longrightarrow> emits ev P m"
  by (simp add: emits_def silent_def)

lemma emits_ext [emits_intros]: "P c \<Longrightarrow> emits ev P (ext ev c)"
  by (simp add: emits_def ext_def Let_def failfast_def)

lemma emits_andthen [emits_intros]:
  assumes "emits ev P m" and "\<And>x. emits ev P (f x)"
  shows "emits ev P (andthen m f)"
  unfolding emits_def
proof
  fix st
  from assms(1) obtain xs where xs: "trace (snd (m st)) = trace st @ xs" "list_all P xs"
    "failfast ev (trace st) xs (fst (m st))"
    unfolding emits_def by blast
  show "\<exists>evs. trace (snd (andthen m f st)) = trace st @ evs \<and> list_all P evs
              \<and> failfast ev (trace st) evs (fst (andthen m f st))"
  proof (cases "m st")
    case (Pair r s1)
    show ?thesis
    proof (cases r)
      case (Raise e)
      with Pair xs show ?thesis by (auto simp: andthen_def failfast_def)
    next
      case (Return x)
      from assms(2)[of x] obtain ys where ys: "trace (snd (f x s1)) = trace s1 @ ys" "list_all P ys"
        "failfast ev (trace s1) ys (fst (f x s1))"
        unfolding emits_def by blast
      from xs Pair Return have nr: "noraise ev (trace st) xs" and t1: "trace s1 = trace st @ xs"
        by (simp_all add: failfast_def)
      from failfast_append[OF nr] ys(3) t1
      have "failfast ev (trace st) (xs @ ys) (fst (f x s1))" by simp
      with Pair Return xs ys t1 show ?thesis
        by (intro exI[of _ "xs @ ys"]) (simp add: andthen_def)
    qed
  qed
qed

lemma emits_if [emits_intros]:
  "emits ev P a \<Longrightarrow> emits ev P b \<Longrightarrow> emits ev P (if c then a else b)"
  by simp

lemma emits_case_prod [emits_intros]:
  "(\<And>a b. emits ev P (f a b)) \<Longrightarrow> emits ev P (case p of (a, b) \<Rightarrow> f a b)"
  by (cases p) simp

lemma for_each_andthen:
  "for_each f (x # xs) = andthen (f x) (\<lambda>_. for_each f xs)"
  by (rule ext) (simp add: andthen_def split: prod.splits outcome.splits)

lemma for_each_Nil: "for_each f [] = return ()"
  by (rule ext) (simp add: return_def)

lemma emits_for_each [emits_intros]:
  "(\<And>x. emits ev P (f x)) \<Longrightarrow> emits ev P (for_each f xs)"
  by (induction xs) (simp_all add: for_each_andthen for_each_Nil emits_andthen emits_silent silent_return)

lemma emits_prims [emits_intros]:
  "emits ev P (return x)" "emits ev P (raise e)" "emits ev P (attr g)"
  "emits ev P (getitem v k)" "emits ev P (setitem v k y)" "emits ev P (test v)"
  "emits ev P (getmethod v)" "emits ev P (read_attr ev fld v)" "emits ev P (items_of v)"
  "emits ev P (py_min xs)" "emits ev P (alloc ob)"
  "emits ev P (set_invessel_build_dict d)" "emits ev P (set_magnets_dict d)"
  "emits ev P (set_source_dict d)" "emits ev P (set_dagmc_export d)"
  "emits ev P get_invessel_build_dict" "emits ev P get_magnets_dict"
  "emits ev P get_source_dict" "emits ev P get_dagmc_export"
  "emits ev P logger" "emits ev P vmec_file" "emits ev P (logger_setter lo)"
  "emits ev P (Path_suffix v)"
  by (intro emits_silent silent_intros)+

lemma emits_assign [emits_intros]:
  "(\<And>st. trace (f st) = trace st) \<Longrightarrow> emits ev P (assign f)"
  by (intro emits_silent silent_intros)

lemma emits_construct [emits_intros]: "P c \<Longrightarrow> emits ev P (construct ev c)"
  unfolding construct_def by (intro emits_intros)

lemma emits_cmd [emits_intros]: "P (Cubit_cmd s) \<Longrightarrow> emits ev P (cmd ev s)"
  unfolding cmd_def by (intro emits_intros)

lemma emits_logger_info [emits_intros]:
  "P (Logger_info msg) \<Longrightarrow> emits ev P (logger_info ev lg msg)"
  by (auto simp: emits_def logger_info_def dest: emits_ext[of P _ ev, unfolded emits_def]
      split: option.splits obj.splits)

lemma emits_logger_error [emits_intros]:
  "P (Logger_error msg) \<Longrightarrow> emits ev P (logger_error ev lg msg)"
  by (auto simp: emits_def logger_error_def dest: emits_ext[of P _ ev, unfolded emits_def]
      split: option.splits obj.splits)

lemma emits_construct_invessel_build:
  "emits ev (\<lambda>c. stage_num c = 1) (construct_invessel_build ev d)"
  unfolding construct_invessel_build_def by (intro emits_intros) simp_all

lemma emits_export_invessel_build:
  "emits ev (\<lambda>c. stage_num c = 2) (export_invessel_build ev d)"
  unfolding export_invessel_build_def by (intro emits_intros) simp_all

lemma emits_construct_magnets:
  "emits ev (\<lambda>c. stage_num c = 3) (construct_magnets ev d)"
  unfolding construct_magnets_def by (intro emits_intros) simp_all

lemma emits_export_magnets:
  "emits ev (\<lambda>c. stage_num c = 4) (export_magnets ev d)"
  unfolding export_magnets_def by (intro emits_intros) simp_all

lemma emits_construct_source_mesh:
  "emits ev (\<lambda>c. stage_num c = 5) (construct_source_mesh ev d)"
  unfolding construct_source_mesh_def by (intro emits_intros) simp_all

lemma emits_export_source_mesh:
  "emits ev (\<lambda>c. stage_num c = 6) (export_source_mesh ev d)"
  unfolding export_source_mesh_def by (intro emits_intros) simp_all


lemma emits_make_material_block [emits_intros]:
  "(\<And>s. P (Cubit_cmd s)) \<Longrightarrow> emits ev P (make_material_block ev tag b v)"
  unfolding make_material_block_def by (intro emits_intros) simp_all

lemma emits_import_ivb_step:
  "(\<And>n d. P (Import_step_cubit n d)) \<Longrightarrow> emits ev P (import_ivb_step ev)"
  unfolding import_ivb_step_def by (intro emits_intros) simp_all

lemma emits_tag_materials_legacy:
  "(\<And>s. P (Cubit_cmd s)) \<Longrightarrow> emits ev P (tag_materials_legacy ev)"
  unfolding tag_materials_legacy_def by (intro emits_intros) simp_all

lemma emits_tag_materials_native:
  "(\<And>s. P (Cubit_cmd s)) \<Longrightarrow> emits ev P (tag_materials_native ev)"
  unfolding tag_materials_native_def by (intro emits_intros) simp_all

lemma emits_imprint_and_merge:
  "(\<And>s. P (Cubit_cmd s)) \<Longrightarrow> (\<And>r. P (Merge_layer_surfaces r))
     \<Longrightarrow> emits ev P (imprint_and_merge ev x)"
  unfolding imprint_and_merge_def by (intro emits_intros) simp_all

lemma emits_tag_and_export:
  "(\<And>s. P (Cubit_cmd s)) \<Longrightarrow> (\<And>kw. P (Export_dagmc_cubit_legacy kw))
     \<Longrightarrow> (\<And>kw. P (Export_dagmc_cubit_native kw)) \<Longrightarrow> emits ev P (tag_and_export ev x)"
  unfolding tag_and_export_def export_legacy_def export_native_def
  by (intro emits_intros emits_tag_materials_legacy emits_tag_materials_native) simp_all

lemma emits_export_dagmc:
  "emits ev (\<lambda>c. stage_num c = 7) (export_dagmc ev d)"
  unfolding export_dagmc_def
  by (intro emits_intros emits_import_ivb_step emits_imprint_and_merge emits_tag_and_export)
    simp_all

lemma emits_vmec_file_setter:
  "(\<And>msg. P (Logger_error msg)) \<Longrightarrow> emits ev P (vmec_file_setter ev f)"
  unfolding vmec_file_setter_def by (intro emits_intros) simp_all

lemma emits_Stellarator_init:
  "emits ev (\<lambda>c. stage_num c = 0) (Stellarator_init ev f lo)"
  unfolding Stellarator_init_def by (intro emits_intros emits_vmec_file_setter) simp_all

lemma emits_read_yaml_config:
  "emits ev (\<lambda>c. stage_num c = 0) (read_yaml_config ev f)"
  unfolding read_yaml_config_def by (intro emits_intros) simp_all

lemma emitsD:
  assumes "emits ev P m" and "m st = (r, st')"
  shows "\<exists>evs. trace st' = trace st @ evs \<and> list_all P evs \<and> failfast ev (trace st) evs r"
  using assms(1)[unfolded emits_def, rule_format, of st] assms(2) by simp

lemma sorted_same_stage:
  "list_all (\<lambda>c. stage_num c = k) evs \<Longrightarrow> sorted (map stage_num evs)"
  by (induction evs) (auto simp: list_all_iff)

lemma staged_emits:
  assumes "emits ev (\<lambda>c. stage_num c = k) m"
  shows "staged ev k m"
  unfolding staged_def
proof
  fix st
  from assms[unfolded emits_def, rule_format, of st] obtain evs where
    evs: "trace (snd (m st)) = trace st @ evs" "list_all (\<lambda>c. stage_num c = k) evs"
      "failfast ev (trace st) evs (fst (m st))" by blast
  from evs(2) have "list_all (\<lambda>c. k \<le> stage_num c) evs" by (simp add: list_all_iff)
  with evs sorted_same_stage[OF evs(2)]
  show "\<exists>evs. trace (snd (m st)) = trace st @ evs \<and> sorted (map stage_num evs)
          \<and> list_all (\<lambda>c. k \<le> stage_num c) evs \<and> failfast ev (trace st) evs (fst (m st))"
    by blast
qed

lemma staged_andthen:
  assumes m: "emits ev (\<lambda>c. stage_num c = k) m"
    and f: "\<And>x. staged ev k' (f x)" and le: "k \<le> k'"
  shows "staged ev k (andthen m f)"
  unfolding staged_def
proof
  fix st
  from m[unfolded emits_def, rule_format, of st] obtain xs where
    xs: "trace (snd (m st)) = trace st @ xs" "list_all (\<lambda>c. stage_num c = k) xs"
      "failfast ev (trace st) xs (fst (m st))" by blast
  have sx: "sorted (map stage_num xs)" by (rule sorted_same_stage[OF xs(2)])
  have kx: "list_all (\<lambda>c. k \<le> stage_num c) xs" using xs(2) by (simp add: list_all_iff)
  show "\<exists>evs. trace (snd (andthen m f st)) = trace st @ evs \<and> sorted (map stage_num evs)
          \<and> list_all (\<lambda>c. k \<le> stage_num c) evs
          \<and> failfast ev (trace st) evs (fst (andthen m f st))"
  proof (cases "m st")
    case (Pair r s1)
    show ?thesis
    proof (cases r)
      case (Raise e)
      with Pair xs sx kx show ?thesis by (auto simp: andthen_def failfast_def)
    next
      case (Return x)
      from f[of x, unfolded staged_def, rule_format, of s1] obtain ys where
        ys: "trace (snd (f x s1)) = trace s1 @ ys" "sorted (map stage_num ys)"
          "list_all (\<lambda>c. k' \<le> stage_num c) ys" "failfast ev (trace s1) ys (fst (f x s1))"
        by blast
      from xs Pair Return have nr: "noraise ev (trace st) xs" and t1: "trace s1 = trace st @ xs"
        by (simp_all add: failfast_def)
      from failfast_append[OF nr] ys(4) t1
      have ff: "failfast ev (trace st) (xs @ ys) (fst (f x s1))" by simp
      from xs(2) ys(3) le have "\<forall>a\<in>set xs. \<forall>b\<in>set ys. stage_num a \<le> stage_num b"
        by (auto simp: list_all_iff)
      with sx ys(2) have so: "sorted (map stage_num (xs @ ys))"
        by (simp add: sorted_append)
      from kx ys(3) le have "list_all (\<lambda>c. k \<le> stage_num c) (xs @ ys)"
        by (auto simp: list_all_iff)
      with Pair Return ys t1 ff so show ?thesis
        by (intro exI[of _ "xs @ ys"]) (simp add: andthen_def)
    qed
  qed
qed

lemma staged_case_prod:
  "(\<And>a b. staged ev k (f a b)) \<Longrightarrow> staged ev k (case p of (a, b) \<Rightarrow> f a b)"
  by (cases p) simp

lemma staged_parastell: "staged ev 0 (parastell ev)"
proof -
  have s7: "\<And>x. staged ev 7 (export_dagmc ev x)"
    by (rule staged_emits[OF emits_export_dagmc])
  have s6: "\<And>s x. staged ev 6 (andthen (export_source_mesh ev s) (\<lambda>_. export_dagmc ev x))"
    by (rule staged_andthen[OF emits_export_source_mesh s7]) simp
  have s5: "\<And>s x. staged ev 5 (andthen (construct_source_mesh ev s) (\<lambda>_.
              andthen (export_source_mesh ev s) (\<lambda>_. export_dagmc ev x)))"
    by (rule staged_andthen[OF emits_construct_source_mesh s6]) simp
  have s4: "\<And>m s x. staged ev 4 (andthen (export_magnets ev m) (\<lambda>_.
              andthen (construct_source_mesh ev s) (\<lambda>_.
              andthen (export_source_mesh ev s) (\<lambda>_. export_dagmc ev x))))"
    by (rule staged_andthen[OF emits_export_magnets s5]) simp
  have s3: "\<And>m s x. staged ev 3 (andthen (construct_magnets ev m) (\<lambda>_.
              andthen (export_magnets ev m) (\<lambda>_.
              andthen (construct_source_mesh ev s) (\<lambda>_.
              andthen (export_source_mesh ev s) (\<lambda>_. export_dagmc ev x)))))"
    by (rule staged_andthen[OF emits_construct_magnets s4]) simp
  have s2: "\<And>i m s x. staged ev 2 (andthen (export_invessel_build ev i) (\<lambda>_.
              andthen (construct_magnets ev m) (\<lambda>_.
              andthen (export_magnets ev m) (\<lambda>_.
              andthen (construct_source_mesh ev s) (\<lambda>_.
              andthen (export_source_mesh ev s) (\<lambda>_. export_dagmc ev x))))))"
    by (rule staged_andthen[OF emits_export_invessel_build s3]) simp
  have s1: "\<And>i m s x. staged ev 1 (andthen (construct_invessel_build ev i) (\<lambda>_.
              andthen (export_invessel_build ev i) (\<lambda>_.
              andthen (construct_magnets ev m) (\<lambda>_.
              andthen (export_magnets ev m) (\<lambda>_.
              andthen (construct_source_mesh ev s) (\<lambda>_.
              andthen (export_source_mesh ev s) (\<lambda>_. export_dagmc ev x)))))))"
    by (rule staged_andthen[OF emits_construct_invessel_build s2]) simp
  have s0: "\<And>v i m s x. staged ev 0 (andthen (Stellarator_init ev v PyNone) (\<lambda>_.
              andthen (construct_invessel_build ev i) (\<lambda>_.
              andthen (export_invessel_build ev i) (\<lambda>_.
              andthen (construct_magnets ev m) (\<lambda>_.
              andthen (export_magnets ev m) (\<lambda>_.
              andthen (construct_source_mesh ev s) (\<lambda>_.
              andthen (export_source_mesh ev s) (\<lambda>_. export_dagmc ev x))))))))"
    by (rule staged_andthen[OF emits_Stellarator_init s1]) simp
  have cfg: "\<And>f. staged ev 0 (andthen (read_yaml_config ev f)
              (\<lambda>(v, i, m, s, x). andthen (Stellarator_init ev v PyNone) (\<lambda>_.
              andthen (construct_invessel_build ev i) (\<lambda>_.
              andthen (export_invessel_build ev i) (\<lambda>_.
              andthen (construct_magnets ev m) (\<lambda>_.
              andthen (export_magnets ev m) (\<lambda>_.
              andthen (construct_source_mesh ev s) (\<lambda>_.
              andthen (export_source_mesh ev s) (\<lambda>_. export_dagmc ev x)))))))))"
    by (rule staged_andthen[OF emits_read_yaml_config, where k' = 0]) (simp_all add: split_def s0)
  have "emits ev (\<lambda>c. stage_num c = 0) (ext ev Parse_args)"
    by (rule emits_ext) simp
  from staged_andthen[OF this cfg] show ?thesis
    unfolding parastell_def parse_args_def by simp
qed


lemma andthen_Return_iff:
  "(andthen m f st = (Return y, st')) = (\<exists>x s. m st = (Return x, s) \<and> f x s = (Return y, st'))"
  by (auto simp: andthen_def split: prod.splits outcome.splits)

lemma calls_ext: "calls (ext ev c)"
  by (simp add: calls_def ext_def Let_def)

lemma calls_construct: "calls (construct ev c)"
  by (simp add: calls_def construct_def andthen_def ext_def Let_def alloc_def)

lemma calls_andthenL:
  assumes "calls m" and "\<And>x. emits ev (\<lambda>_. True) (f x)"
  shows "calls (andthen m f)"
  unfolding calls_def
proof (intro allI impI)
  fix st assume "\<exists>y. fst (andthen m f st) = Return y"
  then obtain y where eq: "andthen m f st = (Return y, snd (andthen m f st))"
    by (metis prod.collapse)
  from eq[unfolded andthen_Return_iff]
  obtain x s where m: "m st = (Return x, s)" and f: "f x s = (Return y, snd (andthen m f st))"
    by blast
  from assms(1) m have "length (trace st) < length (trace s)"
    by (auto simp: calls_def dest!: spec[of _ st])
  moreover from emitsD[OF assms(2) f] have "length (trace s) \<le> length (trace (snd (andthen m f st)))"
    by auto
  ultimately show "length (trace st) < length (trace (snd (andthen m f st)))" by simp
qed

lemma calls_andthenR:
  assumes "\<And>x. calls (f x)" and "silent m"
  shows "calls (andthen m f)"
  unfolding calls_def
proof (intro allI impI)
  fix st assume "\<exists>y. fst (andthen m f st) = Return y"
  then obtain y where eq: "andthen m f st = (Return y, snd (andthen m f st))"
    by (metis prod.collapse)
  from eq[unfolded andthen_Return_iff]
  obtain x s where m: "m st = (Return x, s)" and f: "f x s = (Return y, snd (andthen m f st))"
    by blast
  from silentD[OF assms(2) m] have "trace s = trace st" .
  moreover from assms(1)[of x] f have "length (trace s) < length (trace (snd (andthen m f st)))"
    by (auto simp: calls_def dest!: spec[of _ s])
  ultimately show "length (trace st) < length (trace (snd (andthen m f st)))" by simp
qed

lemma calls_construct_invessel_build: "calls (construct_invessel_build ev d)"
  unfolding construct_invessel_build_def
  apply ((rule calls_andthenL[where ev = ev], (rule calls_ext | rule calls_construct))
         | rule calls_andthenR)+
  by (intro emits_intros silent_intros; simp)+

lemma calls_export_invessel_build: "calls (export_invessel_build ev d)"
  unfolding export_invessel_build_def
  apply ((rule calls_andthenL[where ev = ev], (rule calls_ext | rule calls_construct))
         | rule calls_andthenR)+
  by (intro emits_intros silent_intros; simp)+

lemma calls_construct_magnets: "calls (construct_magnets ev d)"
  unfolding construct_magnets_def
  apply ((rule calls_andthenL[where ev = ev], (rule calls_ext | rule calls_construct))
         | rule calls_andthenR)+
  by (intro emits_intros silent_intros; simp)+

lemma calls_export_magnets: "calls (export_magnets ev d)"
  unfolding export_magnets_def
  apply ((rule calls_andthenL[where ev = ev], (rule calls_ext | rule calls_construct))
         | rule calls_andthenR)+
  by (intro emits_intros silent_intros; simp)+

lemma calls_construct_source_mesh: "calls (construct_source_mesh ev d)"
  unfolding construct_source_mesh_def
  apply ((rule calls_andthenL[where ev = ev], (rule calls_ext | rule calls_construct))
         | rule calls_andthenR)+
  by (intro emits_intros silent_intros; simp)+

lemma calls_export_source_mesh: "calls (export_source_mesh ev d)"
  unfolding export_source_mesh_def
  apply ((rule calls_andthenL[where ev = ev], (rule calls_ext | rule calls_construct))
         | rule calls_andthenR)+
  by (intro emits_intros silent_intros; simp)+

lemma calls_export_dagmc: "calls (export_dagmc ev d)"
  unfolding export_dagmc_def
  apply (rule calls_andthenL[where ev = ev], rule calls_ext)
  by (intro emits_intros emits_import_ivb_step emits_imprint_and_merge emits_tag_and_export; simp)

lemma stage_event:
  assumes "emits ev (\<lambda>c. stage_num c = k) m" and "calls m" and "m s = (Return x, s')"
  shows "\<exists>e. trace s' = trace s @ e \<and> k \<in> stage_num ` set e"
proof -
  from emitsD[OF assms(1,3)] obtain e where e: "trace s' = trace s @ e"
    "list_all (\<lambda>c. stage_num c = k) e" by blast
  from assms(2,3) have "length (trace s) < length (trace s')"
    by (auto simp: calls_def dest!: spec[of _ s])
  with e have "e \<noteq> []" by auto
  then obtain c where "c \<in> set e" by (cases e) auto
  with e show ?thesis by (auto simp: list_all_iff)
qed

lemma parastell_all_stages:
  assumes "parastell ev st = (Return (), st')" and "trace st' = trace st @ evs"
  shows "{1..7} \<subseteq> stage_num ` set evs"
proof -
  from assms(1) obtain fn s0 v i m s x s1 s2 s3 s4 s5 s6 s7 s8 where
    p: "ext ev Parse_args st = (Return fn, s0)"
    and y: "read_yaml_config ev fn s0 = (Return (v, i, m, s, x), s1)"
    and n: "Stellarator_init ev v PyNone s1 = (Return (), s2)"
    and r1: "construct_invessel_build ev i s2 = (Return (), s3)"
    and r2: "export_invessel_build ev i s3 = (Return (), s4)"
    and r3: "construct_magnets ev m s4 = (Return (), s5)"
    and r4: "export_magnets ev m s5 = (Return (), s6)"
    and r5: "construct_source_mesh ev s s6 = (Return (), s7)"
    and r6: "export_source_mesh ev s s7 = (Return (), s8)"
    and r7: "export_dagmc ev x s8 = (Return (), st')"
    unfolding parastell_def parse_args_def by (auto simp: andthen_Return_iff)
  have "emits ev (\<lambda>c. stage_num c = 0) (ext ev Parse_args)"
    by (rule emits_ext) simp
  from emitsD[OF this p] obtain a0 where a0: "trace s0 = trace st @ a0" by blast
  from emitsD[OF emits_read_yaml_config y] obtain a1 where a1: "trace s1 = trace s0 @ a1" by blast
  from emitsD[OF emits_Stellarator_init n] obtain a2 where a2: "trace s2 = trace s1 @ a2" by blast
  from stage_event[OF emits_construct_invessel_build calls_construct_invessel_build r1]
  obtain e1 where e1: "trace s3 = trace s2 @ e1" "1 \<in> stage_num ` set e1" by blast
  from stage_event[OF emits_export_invessel_build calls_export_invessel_build r2]
  obtain e2 where e2: "trace s4 = trace s3 @ e2" "2 \<in> stage_num ` set e2" by blast
  from stage_event[OF emits_construct_magnets calls_construct_magnets r3]
  obtain e3 where e3: "trace s5 = trace s4 @ e3" "3 \<in> stage_num ` set e3" by blast
  from stage_event[OF emits_export_magnets calls_export_magnets r4]
  obtain e4 where e4: "trace s6 = trace s5 @ e4" "4 \<in> stage_num ` set e4" by blast
  from stage_event[OF emits_construct_source_mesh calls_construct_source_mesh r5]
  obtain e5 where e5: "trace s7 = trace s6 @ e5" "5 \<in> stage_num ` set e5" by blast
  from stage_event[OF emits_export_source_mesh calls_export_source_mesh r6]
  obtain e6 where e6: "trace s8 = trace s7 @ e6" "6 \<in> stage_num ` set e6" by blast
  from stage_event[OF emits_export_dagmc calls_export_dagmc r7]
  obtain e7 where e7: "trace st' = trace s8 @ e7" "7 \<in> stage_num ` set e7" by blast
  from a0 a1 a2 e1(1) e2(1) e3(1) e4(1) e5(1) e6(1) e7(1) assms(2)
  have evs: "evs = a0 @ a1 @ a2 @ e1 @ e2 @ e3 @ e4 @ e5 @ e6 @ e7" by simp
  have "{1..7} = {1, 2, 3, 4, 5, 6, 7::nat}" by auto
  with e1(2) e2(2) e3(2) e4(2) e5(2) e6(2) e7(2) show ?thesis
    unfolding evs by (simp add: image_Un)
qed

lemma andthen_return: "andthen m return = m"
  by (rule ext) (auto simp: andthen_def return_def split: prod.splits outcome.splits)

lemma andthen_return_unit: "andthen m (\<lambda>_. return ()) = (m :: unit prog)"
  by (rule ext) (auto simp: andthen_def return_def split: prod.splits outcome.splits)

lemma parastell_pipeline:
  "parastell ev =
     andthen (parse_args ev) (\<lambda>fn.
     andthen (read_yaml_config ev fn) (\<lambda>(v, i, m, s, x).
     andthen (Stellarator_init ev v PyNone) (\<lambda>_.
       run_stages (pipeline ev i m s x))))"
  by (simp add: parastell_def run_stages_def pipeline_def for_each_andthen for_each_Nil
      andthen_return_unit andthen_return)

lemma run_stages_failfast:
  "run_stages pre w = (Return (), s1) \<Longrightarrow> y s1 = (Raise e, s2)
     \<Longrightarrow> run_stages (pre @ y # post) w = (Raise e, s2)"
proof (induction pre arbitrary: w)
  case Nil
  then show ?case by (simp add: run_stages_def)
next
  case (Cons p pre)
  obtain r s where p: "p w = (r, s)" by (cases "p w")
  show ?case
  proof (cases r)
    case (Return u)
    with Cons.prems(1) p have "run_stages pre s = (Return (), s1)"
      by (simp add: run_stages_def)
    from Cons.IH[OF this Cons.prems(2)] p Return show ?thesis
      by (simp add: run_stages_def)
  next
    case (Raise e')
    with Cons.prems(1) p show ?thesis by (simp add: run_stages_def)
  qed
qed

text \<open>
  Claim C5. The script runs its stages in the fixed order in-vessel build construction,
  in-vessel export, magnet construction, magnet export, source-mesh construction,
  source-mesh export, DAGMC export; when a stage raises, the run ends in the state of
  that raise and the stages after it are not run. In terms of the calls made: they occur
  in the order of the stages, no call is made after a call that raised (nothing is
  retried), and a run that returns has gone through all seven stages.
\<close>

theorem parastell_stage_order:
  "parastell ev =
     andthen (parse_args ev) (\<lambda>fn.
     andthen (read_yaml_config ev fn) (\<lambda>(v, i, m, s, x).
     andthen (Stellarator_init ev v PyNone) (\<lambda>_.
       run_stages (pipeline ev i m s x))))
   \<and> (\<forall>pre y post w s1 e s2.
         run_stages pre w = (Return (), s1) \<and> y s1 = (Raise e, s2) \<longrightarrow>
         run_stages (pre @ y # post) w = (Raise e, s2))
   \<and> (\<forall>st r st'. parastell ev st = (r, st') \<longrightarrow>
        (\<exists>evs. trace st' = trace st @ evs \<and> sorted (map stage_num evs)
           \<and> failfast ev (trace st) evs r
           \<and> (r = Return () \<longrightarrow> {1..7} \<subseteq> stage_num ` set evs)))"
proof (intro conjI allI impI)
  show "parastell ev =
     andthen (parse_args ev) (\<lambda>fn.
     andthen (read_yaml_config ev fn) (\<lambda>(v, i, m, s, x).
     andthen (Stellarator_init ev v PyNone) (\<lambda>_.
       run_stages (pipeline ev i m s x))))"
    by (rule parastell_pipeline)
next
  fix pre post :: "unit prog list" and y :: "unit prog" and w s1 e s2
  assume "run_stages pre w = (Return (), s1) \<and> y s1 = (Raise e, s2)"
  then show "run_stages (pre @ y # post) w = (Raise e, s2)"
    using run_stages_failfast by blast
next
  fix st r st'
  assume run: "parastell ev st = (r, st')"
  from staged_parastell[unfolded staged_def, rule_format, of ev st] run
  obtain evs where evs: "trace st' = trace st @ evs" "sorted (map stage_num evs)"
    "failfast ev (trace st) evs r" by auto
  from parastell_all_stages[OF _ evs(1)] run
  have "r = Return () \<longrightarrow> {1..7} \<subseteq> stage_num ` set evs" by blast
  with evs show "\<exists>evs. trace st' = trace st @ evs \<and> sorted (map stage_num evs)
           \<and> failfast ev (trace st) evs r
           \<and> (r = Return () \<longrightarrow> {1..7} \<subseteq> stage_num ` set evs)" by blast
qed

lemma construct_invessel_build_ev0_raises:
  "fst (construct_invessel_build ev0 (PyRef 4) st_init) = Raise (KeyError ''toroidal_angles'')"
  by code_simp

theorem parastell_stage_order_witness:
  "run_stages [] st_init = (Return (), st_init)
   \<and> construct_invessel_build ev0 (PyRef 4) st_init
       = (Raise (KeyError ''toroidal_angles''), snd (construct_invessel_build ev0 (PyRef 4) st_init))
   \<and> run_stages (pipeline ev0 (PyRef 4) (PyRef 2) (PyRef 3) (PyRef 4)) st_init
       = (Raise (KeyError ''toroidal_angles''), snd (construct_invessel_build ev0 (PyRef 4) st_init))
   \<and> parastell ev0 st_cfg = (Return (), snd (parastell ev0 st_cfg))
   \<and> (\<exists>evs. trace (snd (parastell ev0 st_cfg)) = trace st_cfg @ evs
          \<and> sorted (map stage_num evs)
          \<and> failfast ev0 (trace st_cfg) evs (Return ())
          \<and> {1..7} \<subseteq> stage_num ` set evs)"
proof -
  have a: "run_stages [] st_init = (Return (), st_init)"
    by (simp add: run_stages_def)
  have b: "construct_invessel_build ev0 (PyRef 4) st_init
       = (Raise (KeyError ''toroidal_angles''), snd (construct_invessel_build ev0 (PyRef 4) st_init))"
    using construct_invessel_build_ev0_raises by (metis prod.collapse)
  have "fst (parastell ev0 st_cfg) = Return ()" by code_simp
  then have run: "parastell ev0 st_cfg = (Return (), snd (parastell ev0 st_cfg))"
    by (metis prod.collapse)
  note inst = parastell_stage_order[of ev0]
  from inst a b
  have c: "run_stages ([] @ construct_invessel_build ev0 (PyRef 4)
              # [export_invessel_build ev0 (PyRef 4),
                 construct_magnets ev0 (PyRef 2), export_magnets ev0 (PyRef 2),
                 construct_source_mesh ev0 (PyRef 3), export_source_mesh ev0 (PyRef 3),
                 export_dagmc ev0 (PyRef 4)]) st_init
       = (Raise (KeyError ''toroidal_angles''), snd (construct_invessel_build ev0 (PyRef 4) st_init))"
    by blast
  from inst run
  have d: "\<exists>evs. trace (snd (parastell ev0 st_cfg)) = trace st_cfg @ evs
          \<and> sorted (map stage_num evs)
          \<and> failfast ev0 (trace st_cfg) evs (Return ())
          \<and> {1..7} \<subseteq> stage_num ` set evs" by blast
  from a b c run d show ?thesis by (simp add: pipeline_def)
qed

subsection \<open>Reading the configuration and constructing the components\<close>

lemma deref_trace_update [simp]: "deref (st\<lparr>trace := t\<rparr>) v = deref st v"
  by (cases v) (simp_all add: deref_def)

lemma getitem_lookup:
  "getitem v k st =
     (case deref st v of
        Some (Dict d) \<Rightarrow> (case map_of d k of Some x \<Rightarrow> (Return x, st) | None \<Rightarrow> (Raise (KeyError k), st))
      | _ \<Rightarrow> (Raise TypeError, st))"
  by (simp add: getitem_def andthen_def as_dict_def return_def raise_def
      split: option.splits obj.splits)

lemma read_yaml_config_loaded:
  assumes "\<not> raises ev (trace st) (Open_file f)"
    and "\<not> raises ev (trace st @ [Open_file f]) (Safe_load (result ev (trace st) (Open_file f)))"
    and "all_data = result ev (trace st @ [Open_file f]) (Safe_load (result ev (trace st) (Open_file f)))"
  shows "((\<exists>e. fst (read_yaml_config ev f st) = Raise e)
            \<longleftrightarrow> (\<exists>k\<in>set sections. lookup st all_data k = None))
       \<and> (\<forall>v i m s x. fst (read_yaml_config ev f st) = Return (v, i, m, s, x) \<longrightarrow>
            lookup st all_data ''vmec_file'' = Some v
            \<and> lookup st all_data ''invessel_build'' = Some i
            \<and> lookup st all_data ''magnet_coils'' = Some m
            \<and> lookup st all_data ''source_mesh'' = Some s
            \<and> lookup st all_data ''dagmc_export'' = Some x)"
  using assms
  by (auto simp: read_yaml_config_def andthen_def ext_def Let_def getitem_lookup return_def
      sections_def lookup_def split: option.splits obj.splits)

lemma set_source_dict_snd:
  "snd (set_source_dict d st) =
     st\<lparr>heap := heap st @ [Dict source_def,
              Dict (case deref (st\<lparr>heap := heap st @ [Dict source_def, Dict source_def]\<rparr>) d of
                      Some (Dict kv) \<Rightarrow> update_items kv source_def
                    | _ \<Rightarrow> source_def)],
        source_dict := Some (PyRef (Suc (length (heap st))))\<rparr>"
  by (cases d)
    (simp_all add: set_source_dict_def dict_defs split: option.splits obj.splits)

lemma set_source_dict_frame:
  "\<exists>r ob. set_source_dict d st =
     (r, st\<lparr>heap := heap st @ [Dict source_def, Dict ob],
            source_dict := Some (PyRef (Suc (length (heap st))))\<rparr>)"
  using set_source_dict_snd[of d st] by (metis prod.collapse)

lemma construct_source_mesh_order:
  assumes "construct_source_mesh ev source st = (r, st')"
  shows "\<exists>args kw evs rest.
           trace st' = trace st @ evs
           \<and> evs @ rest = [SourceMesh args kw, Create_vertices (PyRef (length (heap st) + 2)),
                           Create_mesh (PyRef (length (heap st) + 2))]
           \<and> (r = Return () \<longrightarrow> rest = []
                \<and> source_mesh st' = Some (PyRef (length (heap st) + 2))
                \<and> deref st (PyRef (length (heap st) + 2)) = None
                \<and> deref st' (PyRef (length (heap st) + 2)) = Some (Opaque True))"
proof -
  from set_source_dict_frame[of source st] obtain r0 ob where
    "set_source_dict source st =
       (r0, st\<lparr>heap := heap st @ [Dict source_def, Dict ob],
              source_dict := Some (PyRef (Suc (length (heap st))))\<rparr>)" by blast
  with assms show ?thesis
    by (cases r0)
      (auto simp: construct_source_mesh_def andthen_def
        get_source_dict_def attr_def getitem_lookup logger_def construct_def ext_def Let_def
        alloc_def assign_def getmethod_def return_def raise_def deref_PyRef nth_append
        split: option.splits obj.splits if_splits)
qed


lemma set_invessel_build_dict_snd:
  "snd (set_invessel_build_dict d st) =
     st\<lparr>heap := heap st @ [Dict invessel_build_def,
              Dict (case deref (st\<lparr>heap := heap st @ [Dict invessel_build_def,
                                                       Dict invessel_build_def]\<rparr>) d of
                      Some (Dict kv) \<Rightarrow> update_items kv invessel_build_def
                    | _ \<Rightarrow> invessel_build_def)],
        ivb_dict := Some (PyRef (Suc (length (heap st))))\<rparr>"
  by (cases d)
    (simp_all add: set_invessel_build_dict_def dict_defs split: option.splits obj.splits)

lemma set_invessel_build_dict_frame:
  "\<exists>r ob. set_invessel_build_dict d st =
     (r, st\<lparr>heap := heap st @ [Dict invessel_build_def, Dict ob],
            ivb_dict := Some (PyRef (Suc (length (heap st))))\<rparr>)"
  using set_invessel_build_dict_snd[of d st] by (metis prod.collapse)

lemma construct_invessel_build_order:
  assumes "construct_invessel_build ev cfg st = (r, st')"
  shows "\<exists>args kw evs rest.
           trace st' = trace st @ evs
           \<and> evs @ rest = [InVesselBuild args kw,
                           Populate_surfaces (PyRef (length (heap st) + 2)),
                           Calculate_loci (PyRef (length (heap st) + 2)),
                           Generate_components (PyRef (length (heap st) + 2))]
           \<and> (r = Return () \<longrightarrow> rest = []
                \<and> invessel_build st' = Some (PyRef (length (heap st) + 2))
                \<and> deref st (PyRef (length (heap st) + 2)) = None
                \<and> deref st' (PyRef (length (heap st) + 2)) = Some (Opaque True))"
proof -
  from set_invessel_build_dict_frame[of cfg st] obtain r0 ob where
    "set_invessel_build_dict cfg st =
       (r0, st\<lparr>heap := heap st @ [Dict invessel_build_def, Dict ob],
              ivb_dict := Some (PyRef (Suc (length (heap st))))\<rparr>)" by blast
  with assms show ?thesis
    by (cases r0)
      (auto simp: construct_invessel_build_def andthen_def
        get_invessel_build_dict_def attr_def getitem_lookup logger_def construct_def ext_def
        Let_def alloc_def assign_def getmethod_def return_def raise_def deref_PyRef nth_append
        split: option.splits obj.splits if_splits)
qed

text \<open>
  Claim C6. \<^verbatim>\<open>construct_source_mesh\<close> calls the \<^verbatim>\<open>SourceMesh\<close> constructor, then
  \<^verbatim>\<open>create_vertices\<close>, then \<^verbatim>\<open>create_mesh\<close>, each once and both on the object just built
  (which is new: no object of the store before the call); \<^verbatim>\<open>construct_invessel_build\<close>
  likewise calls \<^verbatim>\<open>populate_surfaces\<close>, \<^verbatim>\<open>calculate_loci\<close> and \<^verbatim>\<open>generate_components\<close>. A
  run that raises has made a prefix of these calls; a run that returns has made all of
  them and has stored the new object in the attribute.
\<close>

theorem construct_call_order:
  "(construct_source_mesh ev source st = (r, st') \<longrightarrow>
      (\<exists>args kw evs rest.
           trace st' = trace st @ evs
           \<and> evs @ rest = [SourceMesh args kw, Create_vertices (PyRef (length (heap st) + 2)),
                           Create_mesh (PyRef (length (heap st) + 2))]
           \<and> (r = Return () \<longrightarrow> rest = []
                \<and> source_mesh st' = Some (PyRef (length (heap st) + 2))
                \<and> deref st (PyRef (length (heap st) + 2)) = None
                \<and> deref st' (PyRef (length (heap st) + 2)) = Some (Opaque True))))
   \<and> (construct_invessel_build ev cfg st = (r, st') \<longrightarrow>
      (\<exists>args kw evs rest.
           trace st' = trace st @ evs
           \<and> evs @ rest = [InVesselBuild args kw,
                           Populate_surfaces (PyRef (length (heap st) + 2)),
                           Calculate_loci (PyRef (length (heap st) + 2)),
                           Generate_components (PyRef (length (heap st) + 2))]
           \<and> (r = Return () \<longrightarrow> rest = []
                \<and> invessel_build st' = Some (PyRef (length (heap st) + 2))
                \<and> deref st (PyRef (length (heap st) + 2)) = None
                \<and> deref st' (PyRef (length (heap st) + 2)) = Some (Opaque True))))"
  using construct_source_mesh_order[of ev source st r st']
    construct_invessel_build_order[of ev cfg st r st']
  by blast

lemma construct_source_mesh_ev0: "fst (construct_source_mesh ev0 (PyRef 3) st_init) = Return ()"
  by code_simp

lemma construct_invessel_build_ev0: "fst (construct_invessel_build ev0 (PyRef 1) st_init) = Return ()"
  by code_simp

theorem construct_call_order_witness:
  "(\<exists>args kw.
       trace (snd (construct_source_mesh ev0 (PyRef 3) st_init))
         = trace st_init @ [SourceMesh args kw, Create_vertices (PyRef (length (heap st_init) + 2)),
                            Create_mesh (PyRef (length (heap st_init) + 2))])
   \<and> (\<exists>args kw.
       trace (snd (construct_invessel_build ev0 (PyRef 1) st_init))
         = trace st_init @ [InVesselBuild args kw,
                            Populate_surfaces (PyRef (length (heap st_init) + 2)),
                            Calculate_loci (PyRef (length (heap st_init) + 2)),
                            Generate_components (PyRef (length (heap st_init) + 2))])"
proof -
  have a: "construct_source_mesh ev0 (PyRef 3) st_init
             = (Return (), snd (construct_source_mesh ev0 (PyRef 3) st_init))"
    using construct_source_mesh_ev0 by (metis prod.collapse)
  have b: "construct_invessel_build ev0 (PyRef 1) st_init
             = (Return (), snd (construct_invessel_build ev0 (PyRef 1) st_init))"
    using construct_invessel_build_ev0 by (metis prod.collapse)
  from construct_call_order[of ev0 "PyRef 3" st_init "Return ()"
      "snd (construct_source_mesh ev0 (PyRef 3) st_init)"] a
  have 1: "\<exists>args kw.
       trace (snd (construct_source_mesh ev0 (PyRef 3) st_init))
         = trace st_init @ [SourceMesh args kw, Create_vertices (PyRef (length (heap st_init) + 2)),
                            Create_mesh (PyRef (length (heap st_init) + 2))]"
    by fastforce
  from construct_call_order[of ev0 _ st_init "Return ()"
      "snd (construct_invessel_build ev0 (PyRef 1) st_init)" "PyRef 1"] b
  have 2: "\<exists>args kw.
       trace (snd (construct_invessel_build ev0 (PyRef 1) st_init))
         = trace st_init @ [InVesselBuild args kw,
                            Populate_surfaces (PyRef (length (heap st_init) + 2)),
                            Calculate_loci (PyRef (length (heap st_init) + 2)),
                            Generate_components (PyRef (length (heap st_init) + 2))]"
    by fastforce
  from 1 2 show ?thesis by blast
qed

text \<open>
  Claim C7. When the file opens and loads, \<^verbatim>\<open>read_yaml_config\<close> raises if and only if one of
  the five keys \<^verbatim>\<open>vmec_file\<close>, \<^verbatim>\<open>invessel_build\<close>, \<^verbatim>\<open>magnet_coils\<close>, \<^verbatim>\<open>source_mesh\<close>,
  \<^verbatim>\<open>dagmc_export\<close> is missing from the loaded data, and otherwise returns the five values;
  when it raises, the script stops there, having made configuration calls only.
\<close>

theorem read_yaml_config_sections:
  assumes "\<not> raises ev (trace st) (Open_file f)"
    and "\<not> raises ev (trace st @ [Open_file f]) (Safe_load (result ev (trace st) (Open_file f)))"
    and "all_data = result ev (trace st @ [Open_file f]) (Safe_load (result ev (trace st) (Open_file f)))"
  shows "((\<exists>e. fst (read_yaml_config ev f st) = Raise e)
            \<longleftrightarrow> (\<exists>k\<in>set sections. lookup st all_data k = None))
       \<and> (\<forall>v i m s x. fst (read_yaml_config ev f st) = Return (v, i, m, s, x) \<longrightarrow>
            lookup st all_data ''vmec_file'' = Some v
            \<and> lookup st all_data ''invessel_build'' = Some i
            \<and> lookup st all_data ''magnet_coils'' = Some m
            \<and> lookup st all_data ''source_mesh'' = Some s
            \<and> lookup st all_data ''dagmc_export'' = Some x)
       \<and> (\<forall>w fn s0 e s1. parse_args ev w = (Return fn, s0)
              \<and> read_yaml_config ev fn s0 = (Raise e, s1) \<longrightarrow>
            parastell ev w = (Raise e, s1)
            \<and> (\<exists>evs. trace s1 = trace w @ evs \<and> list_all (\<lambda>c. stage_num c = 0) evs))"
proof -
  have abort: "parastell ev w = (Raise e, s1)
            \<and> (\<exists>evs. trace s1 = trace w @ evs \<and> list_all (\<lambda>c. stage_num c = 0) evs)"
    if p: "parse_args ev w = (Return fn, s0)"
      and y: "read_yaml_config ev fn s0 = (Raise e, s1)" for w fn s0 e s1
  proof -
    have "emits ev (\<lambda>c. stage_num c = 0) (parse_args ev)"
      unfolding parse_args_def by (rule emits_ext) simp
    from emitsD[OF this p] obtain a where a: "trace s0 = trace w @ a"
      "list_all (\<lambda>c. stage_num c = 0) a" by blast
    from emitsD[OF emits_read_yaml_config y] obtain b where b: "trace s1 = trace s0 @ b"
      "list_all (\<lambda>c. stage_num c = 0) b" by blast
    from a b have "trace s1 = trace w @ (a @ b) \<and> list_all (\<lambda>c. stage_num c = 0) (a @ b)"
      by simp
    moreover from p y have "parastell ev w = (Raise e, s1)"
      by (simp add: parastell_def andthen_def)
    ultimately show ?thesis by blast
  qed
  from read_yaml_config_loaded[OF assms] abort show ?thesis by blast
qed

lemma read_yaml_config_ev0_missing:
  "read_yaml_config ev0 (PyStr ''config.yaml'') (st_user\<lparr>trace := [Parse_args]\<rparr>)
     = (Raise (KeyError ''vmec_file''),
        st_user\<lparr>trace := [Parse_args, Open_file (PyStr ''config.yaml''), Safe_load (PyRef 6)]\<rparr>)"
  by (simp add: read_yaml_config_def andthen_def ext_def Let_def getitem_lookup raise_def
      deref_PyRef st_user_def st0_def ev0_def user_cfg_def)

theorem read_yaml_config_sections_witness:
  "\<not> raises ev0 (trace st_cfg) (Open_file (PyStr ''config.yaml''))
   \<and> \<not> raises ev0 (trace st_cfg @ [Open_file (PyStr ''config.yaml'')])
        (Safe_load (result ev0 (trace st_cfg) (Open_file (PyStr ''config.yaml''))))
   \<and> \<not> (\<exists>e. fst (read_yaml_config ev0 (PyStr ''config.yaml'') st_cfg) = Raise e)
   \<and> parastell ev0 st_user
       = (Raise (KeyError ''vmec_file''),
          st_user\<lparr>trace := [Parse_args, Open_file (PyStr ''config.yaml''), Safe_load (PyRef 6)]\<rparr>)"
proof -
  have h1: "\<not> raises ev0 (trace st_cfg) (Open_file (PyStr ''config.yaml''))"
    by (simp add: ev0_def)
  have h2: "\<not> raises ev0 (trace st_cfg @ [Open_file (PyStr ''config.yaml'')])
        (Safe_load (result ev0 (trace st_cfg) (Open_file (PyStr ''config.yaml''))))"
    by (simp add: ev0_def)
  have h3: "PyRef 0 = result ev0 (trace st_cfg @ [Open_file (PyStr ''config.yaml'')])
        (Safe_load (result ev0 (trace st_cfg) (Open_file (PyStr ''config.yaml''))))"
    by (simp add: ev0_def)
  have all: "\<not> (\<exists>k\<in>set sections. lookup st_cfg (PyRef 0) k = None)"
    by (simp add: sections_def lookup_def deref_PyRef st_cfg_def st0_def)
  have p: "parse_args ev0 st_user = (Return (PyStr ''config.yaml''), st_user\<lparr>trace := [Parse_args]\<rparr>)"
    by (simp add: parse_args_def ext_def Let_def ev0_def st_user_def st0_def)
  note inst = read_yaml_config_sections[OF h1 h2 h3]
  from inst all have 1: "\<not> (\<exists>e. fst (read_yaml_config ev0 (PyStr ''config.yaml'') st_cfg) = Raise e)"
    by blast
  from inst p read_yaml_config_ev0_missing
  have 2: "parastell ev0 st_user
       = (Raise (KeyError ''vmec_file''),
          st_user\<lparr>trace := [Parse_args, Open_file (PyStr ''config.yaml''), Safe_load (PyRef 6)]\<rparr>)"
    by blast
  from h1 h2 1 2 show ?thesis by blast
qed

subsection \<open>The DAGMC export\<close>

named_theorems heap_intros

lemma heap_keptD: "heap_kept m \<Longrightarrow> m st = (r, st') \<Longrightarrow> heap st' = heap st"
  by (auto simp: heap_kept_def dest: spec[of _ st])

lemma heap_kept_prims [heap_intros]:
  "heap_kept (return x)" "heap_kept (raise e)" "heap_kept (attr g)" "heap_kept (test v)"
  "heap_kept (getmethod v)" "heap_kept (read_attr ev fld v)" "heap_kept (items_of v)"
  "heap_kept (py_min xs)" "heap_kept (ext ev c)" "heap_kept (getitem v k)"
  by (auto simp: heap_kept_def return_def raise_def attr_def test_def getmethod_def
      read_attr_def items_of_def py_min_def ext_def Let_def getitem_lookup
      split: option.splits pyval.splits obj.splits list.splits)

lemma heap_kept_andthen [heap_intros]:
  "heap_kept m \<Longrightarrow> (\<And>x. heap_kept (f x)) \<Longrightarrow> heap_kept (andthen m f)"
  by (auto simp: heap_kept_def andthen_def split: prod.splits outcome.splits)
    (metis snd_conv)+

lemma heap_kept_if [heap_intros]:
  "heap_kept a \<Longrightarrow> heap_kept b \<Longrightarrow> heap_kept (if c then a else b)"
  by simp

lemma heap_kept_case_prod [heap_intros]:
  "(\<And>a b. heap_kept (f a b)) \<Longrightarrow> heap_kept (case p of (a, b) \<Rightarrow> f a b)"
  by (cases p) simp

lemma heap_kept_for_each [heap_intros]:
  "(\<And>x. heap_kept (f x)) \<Longrightarrow> heap_kept (for_each f xs)"
  by (induction xs) (simp_all add: for_each_andthen for_each_Nil heap_intros)

lemma heap_kept_cmd [heap_intros]: "heap_kept (cmd ev s)"
  unfolding cmd_def by (intro heap_intros)

lemma heap_kept_make_material_block [heap_intros]: "heap_kept (make_material_block ev t b v)"
  unfolding make_material_block_def by (intro heap_intros)

lemma heap_kept_logger_info [heap_intros]: "heap_kept (logger_info ev lg msg)"
  by (auto simp: heap_kept_def logger_info_def ext_def Let_def split: option.splits obj.splits)

lemma heap_kept_tag_materials_legacy: "heap_kept (tag_materials_legacy ev)"
  unfolding tag_materials_legacy_def by (intro heap_intros)

lemma heap_kept_tag_materials_native: "heap_kept (tag_materials_native ev)"
  unfolding tag_materials_native_def by (intro heap_intros)

lemma heap_kept_imprint_and_merge: "heap_kept (imprint_and_merge ev x)"
  unfolding imprint_and_merge_def by (intro heap_intros)

lemma heap_kept_tag_and_export: "heap_kept (tag_and_export ev x)"
  unfolding tag_and_export_def export_legacy_def export_native_def
  by (intro heap_intros heap_kept_tag_materials_legacy heap_kept_tag_materials_native)

lemma lookup_heap: "heap s' = heap s \<Longrightarrow> lookup s' v k = lookup s v k"
  by (cases v) (simp_all add: lookup_def deref_def)

lemma truthy_heap: "heap s' = heap s \<Longrightarrow> truthy s' v = truthy s v"
  by (cases v) (simp_all add: truthy_def deref_def)

lemma deref_heap: "heap s' = heap s \<Longrightarrow> deref s' v = deref s v"
  by (cases v) (simp_all add: deref_def)

lemma emits_weaken:
  assumes "emits ev P m" and "\<And>c. P c \<Longrightarrow> Q c"
  shows "emits ev Q m"
  unfolding emits_def
proof
  fix st
  from assms(1)[unfolded emits_def, rule_format, of st] obtain evs where
    evs: "trace (snd (m st)) = trace st @ evs" "list_all P evs"
      "failfast ev (trace st) evs (fst (m st))" by blast
  from evs(2) assms(2) have "list_all Q evs" by (auto simp: list_all_iff)
  with evs show "\<exists>evs. trace (snd (m st)) = trace st @ evs \<and> list_all Q evs
                  \<and> failfast ev (trace st) evs (fst (m st))" by blast
qed

lemma legacy_not_native: "legacy_call c \<Longrightarrow> \<not> native_call c"
  by (induction c rule: legacy_call.induct) auto

lemma emits_legacy_tags: "emits ev legacy_call (tag_materials_legacy ev)"
  unfolding tag_materials_legacy_def by (intro emits_intros) simp_all

lemma emits_native_block: "emits ev native_call (make_material_block ev t b v)"
  unfolding make_material_block_def by (intro emits_intros) simp_all

lemma emits_native_tags: "emits ev native_call (tag_materials_native ev)"
  unfolding tag_materials_native_def by (intro emits_intros emits_native_block) simp_all

lemma emits_neutral_import:
  "emits ev (\<lambda>c. \<not> legacy_call c \<and> \<not> native_call c) (import_ivb_step ev)"
  by (rule emits_import_ivb_step) simp

lemma emits_neutral_imprint:
  "emits ev (\<lambda>c. \<not> legacy_call c \<and> \<not> native_call c) (imprint_and_merge ev x)"
  unfolding imprint_and_merge_def by (intro emits_intros) simp_all


lemma one_strategy_andthen:
  assumes m: "emits ev (\<lambda>c. \<not> legacy_call c \<and> \<not> native_call c) m"
    and f: "\<And>x. one_strategy (f x)"
  shows "one_strategy (andthen m f)"
  unfolding one_strategy_def
proof
  fix st
  from m[unfolded emits_def, rule_format, of st] obtain xs where
    xs: "trace (snd (m st)) = trace st @ xs"
      "list_all (\<lambda>c. \<not> legacy_call c \<and> \<not> native_call c) xs" by blast
  from xs(2) have n: "list_all (\<lambda>c. \<not> native_call c) xs" "list_all (\<lambda>c. \<not> legacy_call c) xs"
    by (simp_all add: list_all_iff)
  show "\<exists>evs. trace (snd (andthen m f st)) = trace st @ evs
          \<and> (list_all (\<lambda>c. \<not> native_call c) evs \<or> list_all (\<lambda>c. \<not> legacy_call c) evs)"
  proof (cases "m st")
    case (Pair r s1)
    show ?thesis
    proof (cases r)
      case (Raise e)
      with Pair xs n show ?thesis by (auto simp: andthen_def)
    next
      case (Return x)
      from f[of x, unfolded one_strategy_def, rule_format, of s1] obtain ys where
        ys: "trace (snd (f x s1)) = trace s1 @ ys"
          "list_all (\<lambda>c. \<not> native_call c) ys \<or> list_all (\<lambda>c. \<not> legacy_call c) ys" by blast
      from xs Pair have t1: "trace s1 = trace st @ xs" by simp
      from n ys(2) have "list_all (\<lambda>c. \<not> native_call c) (xs @ ys)
                        \<or> list_all (\<lambda>c. \<not> legacy_call c) (xs @ ys)" by auto
      with Pair Return ys(1) t1 show ?thesis
        by (intro exI[of _ "xs @ ys"]) (simp add: andthen_def)
    qed
  qed
qed

lemma one_strategy_if:
  "one_strategy a \<Longrightarrow> one_strategy b \<Longrightarrow> one_strategy (if c then a else b)"
  by simp

lemma one_strategy_legacy: "emits ev (\<lambda>c. \<not> native_call c) m \<Longrightarrow> one_strategy m"
  unfolding emits_def one_strategy_def by blast

lemma one_strategy_native: "emits ev (\<lambda>c. \<not> legacy_call c) m \<Longrightarrow> one_strategy m"
  unfolding emits_def one_strategy_def by blast

lemma emits_legacy_branch: "emits ev (\<lambda>c. \<not> native_call c) (export_legacy ev x)"
  unfolding export_legacy_def
  by (intro emits_intros emits_weaken[OF emits_legacy_tags] legacy_not_native) simp_all

lemma native_not_legacy: "native_call c \<Longrightarrow> \<not> legacy_call c"
  using legacy_not_native by blast

lemma emits_native_branch: "emits ev (\<lambda>c. \<not> legacy_call c) (export_native ev x)"
  unfolding export_native_def
  by (intro emits_intros emits_weaken[OF emits_native_tags] native_not_legacy) simp_all

lemma one_strategy_tag_and_export: "one_strategy (tag_and_export ev x)"
  unfolding tag_and_export_def
  by (intro one_strategy_andthen[where ev = ev] one_strategy_if
      one_strategy_legacy[OF emits_legacy_branch] one_strategy_native[OF emits_native_branch]
      emits_intros)

lemma one_strategy_export_dagmc: "one_strategy (export_dagmc ev d)"
  unfolding export_dagmc_def
  by (intro one_strategy_andthen[where ev = ev] one_strategy_tag_and_export
      emits_intros emits_neutral_import emits_neutral_imprint) simp_all


lemma getitem_Return_iff:
  "(getitem v k st = (Return y, st')) = (lookup st v k = Some y \<and> st' = st)"
  by (auto simp: getitem_lookup lookup_def split: option.splits obj.splits)

lemma ext_Return_iff:
  "(ext ev c st = (Return y, st')) =
     (\<not> raises ev (trace st) c \<and> y = result ev (trace st) c \<and> st' = st\<lparr>trace := trace st @ [c]\<rparr>)"
  by (auto simp: ext_def Let_def)

lemma return_Return_iff: "(return x st = (Return y, st')) = (y = x \<and> st' = st)"
  by (auto simp: return_def)

lemma test_Return_iff: "(test v st = (Return y, st')) = (y = truthy st v \<and> st' = st)"
  by (auto simp: test_def)

lemma attr_Return_iff: "(attr g st = (Return y, st')) = (g st = Some y \<and> st' = st)"
  by (auto simp: attr_def split: option.splits)

lemma andthen_Return_trace:
  assumes "andthen m f s = (Return y, s1)" and "\<And>x. emits ev (\<lambda>_. True) (f x)"
  shows "\<exists>x sa ys. m s = (Return x, sa) \<and> trace s1 = trace sa @ ys"
proof -
  from assms(1)[unfolded andthen_Return_iff] obtain x sa
    where m: "m s = (Return x, sa)" and f: "f x sa = (Return y, s1)" by blast
  from emitsD[OF assms(2) f] m show ?thesis by blast
qed

lemma tag_legacy_facts:
  "tag_materials_legacy ev s = (r, s1) \<Longrightarrow>
     heap s1 = heap s \<and> (\<exists>evs. trace s1 = trace s @ evs \<and> list_all legacy_call evs)"
  using heap_keptD[OF heap_kept_tag_materials_legacy] emitsD[OF emits_legacy_tags] by blast

lemma tag_native_facts:
  assumes "tag_materials_native ev s = (Return (), s1)"
  shows "heap s1 = heap s
     \<and> (\<exists>evs. trace s1 = trace s @ Cubit_cmd [Lit ''set duplicate block elements off''] # evs
              \<and> list_all native_call evs)"
proof -
  have "\<exists>x sa ys. cmd ev [Lit ''set duplicate block elements off''] s = (Return x, sa)
          \<and> trace s1 = trace sa @ ys"
    by (rule andthen_Return_trace[OF assms[unfolded tag_materials_native_def], where ev = ev])
      (intro emits_intros emits_make_material_block; simp)
  then obtain x sa ys where a: "cmd ev [Lit ''set duplicate block elements off''] s = (Return x, sa)"
    and ys: "trace s1 = trace sa @ ys" by blast
  from a have ta: "trace sa = trace s @ [Cubit_cmd [Lit ''set duplicate block elements off'']]"
    by (auto simp: cmd_def andthen_Return_iff ext_Return_iff return_Return_iff)
  from emitsD[OF emits_native_tags assms] obtain evs where
    evs: "trace s1 = trace s @ evs" "list_all native_call evs" by blast
  from ta ys evs(1) have "evs = Cubit_cmd [Lit ''set duplicate block elements off''] # ys" by simp
  with evs(2) have "list_all native_call ys" by simp
  with ta ys heap_keptD[OF heap_kept_tag_materials_native assms] show ?thesis by simp
qed

lemma export_legacy_Return:
  assumes "export_legacy ev x s = (Return (), s')"
  shows "\<exists>ft lt nt fn dir evs.
           lookup s x ''faceting_tolerance'' = Some ft \<and> lookup s x ''length_tolerance'' = Some lt
           \<and> lookup s x ''normal_tolerance'' = Some nt \<and> lookup s x ''filename'' = Some fn
           \<and> lookup s x ''export_dir'' = Some dir \<and> heap s' = heap s
           \<and> trace s' = trace s @ evs @ [Export_dagmc_cubit_legacy
                 [(''faceting_tolerance'', ft), (''length_tolerance'', lt),
                  (''normal_tolerance'', nt), (''filename'', fn), (''export_dir'', dir)]]
           \<and> list_all legacy_call evs"
proof -
  from assms obtain u s1 ft lt nt fn dir where
    t: "tag_materials_legacy ev s = (Return u, s1)"
    and l: "lookup s1 x ''faceting_tolerance'' = Some ft" "lookup s1 x ''length_tolerance'' = Some lt"
      "lookup s1 x ''normal_tolerance'' = Some nt" "lookup s1 x ''filename'' = Some fn"
      "lookup s1 x ''export_dir'' = Some dir"
    and e: "s' = s1\<lparr>trace := trace s1 @ [Export_dagmc_cubit_legacy
                 [(''faceting_tolerance'', ft), (''length_tolerance'', lt),
                  (''normal_tolerance'', nt), (''filename'', fn), (''export_dir'', dir)]]\<rparr>"
    by (auto simp: export_legacy_def andthen_Return_iff getitem_Return_iff ext_Return_iff
        return_Return_iff)
  from tag_legacy_facts[OF t] obtain evs where h: "heap s1 = heap s"
    and evs: "trace s1 = trace s @ evs" "list_all legacy_call evs" by blast
  from l h have "lookup s x ''faceting_tolerance'' = Some ft" "lookup s x ''length_tolerance'' = Some lt"
      "lookup s x ''normal_tolerance'' = Some nt" "lookup s x ''filename'' = Some fn"
      "lookup s x ''export_dir'' = Some dir"
    by (simp_all add: lookup_heap[OF h])
  with e h evs show ?thesis by simp
qed

lemma export_native_Return:
  assumes "export_native ev x s = (Return (), s')"
  shows "\<exists>ar da fn dir evs.
           lookup s x ''anisotropic_ratio'' = Some ar \<and> lookup s x ''deviation_angle'' = Some da
           \<and> lookup s x ''filename'' = Some fn
           \<and> lookup s x ''export_dir'' = Some dir \<and> heap s' = heap s
           \<and> trace s' = trace s @ Cubit_cmd [Lit ''set duplicate block elements off''] # evs
                 @ [Export_dagmc_cubit_native
                 [(''anisotropic_ratio'', ar), (''deviation_angle'', da),
                  (''filename'', fn), (''export_dir'', dir)]]
           \<and> list_all native_call evs"
proof -
  from assms obtain u s1 ar da fn dir where
    t: "tag_materials_native ev s = (Return u, s1)"
    and l: "lookup s1 x ''anisotropic_ratio'' = Some ar" "lookup s1 x ''deviation_angle'' = Some da"
      "lookup s1 x ''filename'' = Some fn" "lookup s1 x ''export_dir'' = Some dir"
    and e: "s' = s1\<lparr>trace := trace s1 @ [Export_dagmc_cubit_native
                 [(''anisotropic_ratio'', ar), (''deviation_angle'', da),
                  (''filename'', fn), (''export_dir'', dir)]]\<rparr>"
    by (auto simp: export_native_def andthen_Return_iff getitem_Return_iff ext_Return_iff
        return_Return_iff)
  from tag_native_facts[of ev s s1] t obtain evs where h: "heap s1 = heap s"
    and evs: "trace s1 = trace s @ Cubit_cmd [Lit ''set duplicate block elements off''] # evs"
      "list_all native_call evs" by auto
  from l h have "lookup s x ''anisotropic_ratio'' = Some ar" "lookup s x ''deviation_angle'' = Some da"
      "lookup s x ''filename'' = Some fn" "lookup s x ''export_dir'' = Some dir"
    by (simp_all add: lookup_heap[OF h])
  with e h evs show ?thesis by simp
qed

lemma tag_and_export_Return:
  assumes "tag_and_export ev x s = (Return (), s')"
  shows "\<exists>lf. lookup s x ''legacy_faceting'' = Some lf
           \<and> (if truthy s lf then export_legacy ev x s = (Return (), s')
               else export_native ev x s = (Return (), s'))"
  using assms
  by (auto simp: tag_and_export_def andthen_Return_iff getitem_Return_iff test_Return_iff
      split: if_splits)

lemma import_body_lookup:
  assumes "andthen (attr invessel_build) (\<lambda>b'.
           andthen (read_attr ev export_dir b') (\<lambda>dir.
           andthen (ext ev (Import_step_cubit (PyStr name) dir)) (\<lambda>vol_id.
             setitem data ''vol_id'' vol_id))) s = (r, s')"
    and "k \<noteq> ''vol_id''"
  shows "lookup s' v k = lookup s v k"
  using assms
  by (cases v; cases data)
    (auto simp: andthen_def attr_def read_attr_def ext_def Let_def setitem_def as_dict_def
      store_dict_def lookup_def deref_def nth_list_update update_conv'
      split: option.splits obj.splits pyval.splits if_splits prod.splits outcome.splits)

lemma for_each_lookup:
  assumes "\<And>x s r s'. f x s = (r, s') \<Longrightarrow> lookup s' v k = lookup s v k"
  shows "for_each f xs s = (r, s') \<Longrightarrow> lookup s' v k = lookup s v k"
proof (induction xs arbitrary: s)
  case Nil
  then show ?case by simp
next
  case (Cons a xs)
  obtain r1 s1 where a: "f a s = (r1, s1)" by (cases "f a s")
  from assms[OF a] have l: "lookup s1 v k = lookup s v k" .
  show ?case
  proof (cases r1)
    case (Return u)
    with Cons.prems a have "for_each f xs s1 = (r, s')" by simp
    from Cons.IH[OF this] l show ?thesis by simp
  next
    case (Raise e)
    with Cons.prems a l show ?thesis by simp
  qed
qed

lemma import_ivb_step_lookup:
  assumes "import_ivb_step ev s = (r, s')" and "k \<noteq> ''vol_id''"
  shows "lookup s' v k = lookup s v k"
proof -
  define F where "F = (\<lambda>(name, data).
           andthen (attr invessel_build) (\<lambda>b'.
           andthen (read_attr ev export_dir b') (\<lambda>dir.
           andthen (ext ev (Import_step_cubit (PyStr name) dir)) (\<lambda>vol_id.
             setitem data ''vol_id'' vol_id))))"
  have body: "\<And>x s r s'. F x s = (r, s') \<Longrightarrow> lookup s' v k = lookup s v k"
    unfolding F_def using import_body_lookup[OF _ assms(2)] by (auto split: prod.splits)
  have loop: "\<And>xs s. for_each F xs s = (r, s') \<Longrightarrow> lookup s' v k = lookup s v k"
    by (rule for_each_lookup[OF body])
  from assms(1) show ?thesis
    unfolding import_ivb_step_def F_def[symmetric]
    by (auto simp: andthen_def attr_def read_attr_def items_of_def
        split: option.splits pyval.splits obj.splits prod.splits outcome.splits
        dest: loop)
qed


lemma logger_info_Return_iff:
  "(logger_info ev lg msg st = (Return y, st')) =
     ((\<exists>h. deref st lg = Some (Logger h)) \<and> ext ev (Logger_info msg) st = (Return y, st'))"
  by (auto simp: logger_info_def split: option.splits obj.splits)

lemma export_dagmc_Return:
  assumes "export_dagmc ev d st = (Return (), st')"
  shows "\<exists>s3 x s4 s5.
      set_dagmc_export d
         (st\<lparr>trace := trace st @ [Init_cubit,
                Logger_info [Lit ''Exporting DAGMC neutronics model...'']]\<rparr>) = (Return (), s3)
      \<and> dagmc_export s3 = Some x
      \<and> (s4 = s3 \<or> import_ivb_step ev s3 = (Return (), s4))
      \<and> imprint_and_merge ev x s4 = (Return (), s5)
      \<and> tag_and_export ev x s5 = (Return (), st')"
  using assms
  by (auto simp: export_dagmc_def andthen_Return_iff ext_Return_iff logger_def attr_Return_iff
      logger_info_Return_iff get_dagmc_export_def test_Return_iff return_Return_iff
      split: if_splits)

lemma configured_lookup:
  "map_of defs k = Some v0 \<Longrightarrow> (map_of defs ++ map_of kv) k = Some (configured defs kv k)"
  by (simp add: configured_def map_add_def split: option.splits)

lemma export_dagmc_faceting:
  assumes run: "export_dagmc ev d st = (Return (), st')"
    and d: "deref st d = Some (Dict kv)" and dist: "distinct (map fst kv)"
  shows "\<exists>evs. trace st' = trace st @ evs
     \<and> (if truthy st' (configured dagmc_export_def kv ''legacy_faceting'')
         then last evs = Export_dagmc_cubit_legacy
                [(''faceting_tolerance'', configured dagmc_export_def kv ''faceting_tolerance''),
                 (''length_tolerance'', configured dagmc_export_def kv ''length_tolerance''),
                 (''normal_tolerance'', configured dagmc_export_def kv ''normal_tolerance''),
                 (''filename'', configured dagmc_export_def kv ''filename''),
                 (''export_dir'', configured dagmc_export_def kv ''export_dir'')]
              \<and> (\<forall>c\<in>set evs. \<not> native_call c)
         else last evs = Export_dagmc_cubit_native
                [(''anisotropic_ratio'', configured dagmc_export_def kv ''anisotropic_ratio''),
                 (''deviation_angle'', configured dagmc_export_def kv ''deviation_angle''),
                 (''filename'', configured dagmc_export_def kv ''filename''),
                 (''export_dir'', configured dagmc_export_def kv ''export_dir'')]
              \<and> Cubit_cmd [Lit ''set duplicate block elements off''] \<in> set evs
              \<and> (\<forall>c\<in>set evs. \<not> legacy_call c))"
proof -
  let ?s2 = "st\<lparr>trace := trace st @ [Init_cubit,
                Logger_info [Lit ''Exporting DAGMC neutronics model...'']]\<rparr>"
  let ?cfg = "configured dagmc_export_def kv"
  from export_dagmc_Return[OF run] obtain s3 x s4 s5 where
    set: "set_dagmc_export d ?s2 = (Return (), s3)"
    and x: "dagmc_export s3 = Some x"
    and imp: "s4 = s3 \<or> import_ivb_step ev s3 = (Return (), s4)"
    and mrg: "imprint_and_merge ev x s4 = (Return (), s5)"
    and tag: "tag_and_export ev x s5 = (Return (), st')" by blast
  from d have d2: "deref ?s2 d = Some (Dict kv)" by simp
  from set x have s3: "x = PyRef (Suc (length (heap st)))"
    "heap s3 = heap st @ [Dict dagmc_export_def, Dict (update_items kv dagmc_export_def)]"
    "trace s3 = trace ?s2"
    by (auto simp: set_dagmc_export_result[OF d2])
  have L3: "lookup s3 x k = Some (?cfg k)" if "map_of dagmc_export_def k = Some v0" for k v0
    using configured_lookup[OF that, of kv]
    by (simp add: s3 lookup_def deref_PyRef nth_append map_of_update_items[OF dist])
  have L4: "lookup s4 x k = lookup s3 x k" if "k \<noteq> ''vol_id''" for k
    using imp import_ivb_step_lookup[OF _ that] by auto
  have h5: "heap s5 = heap s4" by (rule heap_keptD[OF heap_kept_imprint_and_merge mrg])
  have h': "heap st' = heap s5" by (rule heap_keptD[OF heap_kept_tag_and_export tag])
  have L5: "lookup s5 x k = Some (?cfg k)"
    if "map_of dagmc_export_def k = Some v0" "k \<noteq> ''vol_id''" for k v0
    using L3[OF that(1)] L4[OF that(2)] lookup_heap[OF h5] by simp
  have keys: "lookup s5 x ''legacy_faceting'' = Some (?cfg ''legacy_faceting'')"
    "lookup s5 x ''faceting_tolerance'' = Some (?cfg ''faceting_tolerance'')"
    "lookup s5 x ''length_tolerance'' = Some (?cfg ''length_tolerance'')"
    "lookup s5 x ''normal_tolerance'' = Some (?cfg ''normal_tolerance'')"
    "lookup s5 x ''anisotropic_ratio'' = Some (?cfg ''anisotropic_ratio'')"
    "lookup s5 x ''deviation_angle'' = Some (?cfg ''deviation_angle'')"
    "lookup s5 x ''filename'' = Some (?cfg ''filename'')"
    "lookup s5 x ''export_dir'' = Some (?cfg ''export_dir'')"
    by (rule L5; simp add: dagmc_export_def_def)+
  have "\<exists>b. trace s4 = trace s3 @ b \<and> list_all (\<lambda>c. \<not> legacy_call c \<and> \<not> native_call c) b"
    using imp emitsD[OF emits_neutral_import, of ev s3 "Return ()" s4] by auto
  then obtain b where b: "trace s4 = trace s3 @ b"
    "list_all (\<lambda>c. \<not> legacy_call c \<and> \<not> native_call c) b" by blast
  from emitsD[OF emits_neutral_imprint mrg] obtain c where c: "trace s5 = trace s4 @ c"
    "list_all (\<lambda>c. \<not> legacy_call c \<and> \<not> native_call c) c" by blast
  define pre where "pre = [Init_cubit,
                Logger_info [Lit ''Exporting DAGMC neutronics model...'']] @ b @ c"
  from b c s3(3) have pre: "trace s5 = trace st @ pre"
    "list_all (\<lambda>c. \<not> legacy_call c \<and> \<not> native_call c) pre"
    by (simp_all add: pre_def)
  from pre(2) have pre_n: "\<forall>c\<in>set pre. \<not> native_call c" and pre_l: "\<forall>c\<in>set pre. \<not> legacy_call c"
    by (simp_all add: list_all_iff)
  from tag_and_export_Return[OF tag] keys(1)
  have branch: "if truthy s5 (?cfg ''legacy_faceting'') then export_legacy ev x s5 = (Return (), st')
               else export_native ev x s5 = (Return (), st')" by simp
  have tr: "truthy st' (?cfg ''legacy_faceting'') = truthy s5 (?cfg ''legacy_faceting'')"
    by (rule truthy_heap[OF h'])
  show ?thesis
  proof (cases "truthy s5 (?cfg ''legacy_faceting'')")
    case True
    with branch have "export_legacy ev x s5 = (Return (), st')" by simp
    from export_legacy_Return[OF this] keys obtain e where
      e: "trace st' = trace s5 @ e @ [Export_dagmc_cubit_legacy
                [(''faceting_tolerance'', ?cfg ''faceting_tolerance''),
                 (''length_tolerance'', ?cfg ''length_tolerance''),
                 (''normal_tolerance'', ?cfg ''normal_tolerance''),
                 (''filename'', ?cfg ''filename''),
                 (''export_dir'', ?cfg ''export_dir'')]]"
      and le: "list_all legacy_call e" by auto
    from le have "\<forall>c\<in>set e. \<not> native_call c"
      by (auto simp: list_all_iff dest: legacy_not_native)
    with e pre pre_n True tr show ?thesis
      by (intro exI[of _ "pre @ e @ [Export_dagmc_cubit_legacy
                [(''faceting_tolerance'', ?cfg ''faceting_tolerance''),
                 (''length_tolerance'', ?cfg ''length_tolerance''),
                 (''normal_tolerance'', ?cfg ''normal_tolerance''),
                 (''filename'', ?cfg ''filename''),
                 (''export_dir'', ?cfg ''export_dir'')]]"]) auto
  next
    case False
    with branch have "export_native ev x s5 = (Return (), st')" by simp
    from export_native_Return[OF this] keys obtain e where
      e: "trace st' = trace s5 @ Cubit_cmd [Lit ''set duplicate block elements off''] # e
            @ [Export_dagmc_cubit_native
                [(''anisotropic_ratio'', ?cfg ''anisotropic_ratio''),
                 (''deviation_angle'', ?cfg ''deviation_angle''),
                 (''filename'', ?cfg ''filename''),
                 (''export_dir'', ?cfg ''export_dir'')]]"
      and ne: "list_all native_call e" by auto
    from ne have "\<forall>c\<in>set e. \<not> legacy_call c"
      by (auto simp: list_all_iff dest: native_not_legacy)
    with e pre pre_l False tr show ?thesis
      by (intro exI[of _ "pre @ Cubit_cmd [Lit ''set duplicate block elements off''] # e
            @ [Export_dagmc_cubit_native
                [(''anisotropic_ratio'', ?cfg ''anisotropic_ratio''),
                 (''deviation_angle'', ?cfg ''deviation_angle''),
                 (''filename'', ?cfg ''filename''),
                 (''export_dir'', ?cfg ''export_dir'')]]"]) auto
  qed
qed



lemma export_dagmc_ev0_legacy: "fst (export_dagmc ev0 (PyRef 4) st_built) = Return ()"
  by code_simp

lemma export_dagmc_ev0_native: "fst (export_dagmc ev0 (PyRef 12) st_built) = Return ()"
  by code_simp


text \<open>
  Claim C3 says that exactly one of the two surface-merging strategies runs in
  \<^verbatim>\<open>export_dagmc\<close>. On a \<^verbatim>\<open>Stellarator\<close> whose in-vessel build has not been constructed
  (the attribute is \<^verbatim>\<open>None\<close>, the case the import step is guarded against), with
  \<^verbatim>\<open>skip_imprint\<close> true, the call raises \<^verbatim>\<open>AttributeError\<close> after initialising Cubit and
  logging: \<^verbatim>\<open>merge_layer_surfaces\<close> is not invoked and no imprint or merge command is
  issued.
\<close>

theorem export_dagmc_skip_imprint_without_build:
  "invessel_build st_magnets = Some PyNone
   \<and> lookup st_magnets (PyRef 13) ''skip_imprint'' = Some (PyBool True)
   \<and> fst (export_dagmc ev0 (PyRef 13) st_magnets) = Raise AttributeError
   \<and> trace (snd (export_dagmc ev0 (PyRef 13) st_magnets))
       = trace st_magnets @ [Init_cubit, Logger_info [Lit ''Exporting DAGMC neutronics model...'']]"
  by code_simp


lemma getmethod_Return_iff:
  "(getmethod v st = (Return y, st')) = ((\<exists>a. v = PyRef a) \<and> y = v \<and> st' = st)"
  by (cases v) (auto simp: getmethod_def return_def raise_def)

lemma imprint_and_merge_Return:
  assumes "imprint_and_merge ev x s = (Return (), s')"
  shows "\<exists>sk. lookup s x ''skip_imprint'' = Some sk
           \<and> (if truthy s sk
               then (\<exists>a. invessel_build s = Some (PyRef a)
                      \<and> trace s' = trace s @ [Merge_layer_surfaces (PyRef a)])
               else trace s' = trace s @ [Cubit_cmd [Lit ''imprint volume all''],
                                          Cubit_cmd [Lit ''merge volume all'']])"
proof -
  from assms obtain sk where sk: "lookup s x ''skip_imprint'' = Some sk"
    and br: "(if truthy s sk
              then andthen (attr invessel_build) (\<lambda>b.
                   andthen (getmethod b) (\<lambda>r.
                   andthen (ext ev (Merge_layer_surfaces r)) (\<lambda>_. return ())))
              else andthen (cmd ev [Lit ''imprint volume all'']) (\<lambda>_.
                     cmd ev [Lit ''merge volume all''])) s = (Return (), s')"
    by (auto simp: imprint_and_merge_def andthen_Return_iff getitem_Return_iff test_Return_iff)
  show ?thesis
  proof (cases "truthy s sk")
    case True
    with br have "\<exists>a. invessel_build s = Some (PyRef a)
                      \<and> trace s' = trace s @ [Merge_layer_surfaces (PyRef a)]"
      by (auto simp: andthen_Return_iff attr_Return_iff getmethod_Return_iff ext_Return_iff
          return_Return_iff)
    with sk True show ?thesis by simp
  next
    case False
    with br have "trace s' = trace s @ [Cubit_cmd [Lit ''imprint volume all''],
                                          Cubit_cmd [Lit ''merge volume all'']]"
      by (auto simp: andthen_Return_iff ext_Return_iff cmd_def return_Return_iff)
    with sk False show ?thesis by simp
  qed
qed

lemma emits_no_merging_tags:
  "emits ev (\<lambda>c. \<not> merge_call c \<and> \<not> imprint_call c) (tag_and_export ev x)"
  unfolding tag_and_export_def export_legacy_def export_native_def tag_materials_legacy_def
    tag_materials_native_def make_material_block_def
  by (intro emits_intros) simp_all

lemma emits_no_merging_import:
  "emits ev (\<lambda>c. \<not> merge_call c \<and> \<not> imprint_call c) (import_ivb_step ev)"
  by (rule emits_import_ivb_step) simp

text \<open>
  With an in-vessel build, a run of \<^verbatim>\<open>export_dagmc\<close> that returns has used one
  surface-merging strategy: \<^verbatim>\<open>merge_layer_surfaces\<close> and no imprint or merge command when
  \<^verbatim>\<open>skip_imprint\<close> is true, the two commands and no \<^verbatim>\<open>merge_layer_surfaces\<close> otherwise.
\<close>

lemma export_dagmc_merging:
  assumes run: "export_dagmc ev d st = (Return (), st')"
    and d: "deref st d = Some (Dict kv)" and dist: "distinct (map fst kv)"
  shows "\<exists>evs. trace st' = trace st @ evs
     \<and> (if truthy st' (configured dagmc_export_def kv ''skip_imprint'')
         then (\<exists>a. Merge_layer_surfaces (PyRef a) \<in> set evs) \<and> (\<forall>c\<in>set evs. \<not> imprint_call c)
         else Cubit_cmd [Lit ''imprint volume all''] \<in> set evs
              \<and> Cubit_cmd [Lit ''merge volume all''] \<in> set evs
              \<and> (\<forall>c\<in>set evs. \<not> merge_call c))"
proof -
  let ?s2 = "st\<lparr>trace := trace st @ [Init_cubit,
                Logger_info [Lit ''Exporting DAGMC neutronics model...'']]\<rparr>"
  let ?cfg = "configured dagmc_export_def kv"
  from export_dagmc_Return[OF run] obtain s3 x s4 s5 where
    set: "set_dagmc_export d ?s2 = (Return (), s3)"
    and x: "dagmc_export s3 = Some x"
    and imp: "s4 = s3 \<or> import_ivb_step ev s3 = (Return (), s4)"
    and mrg: "imprint_and_merge ev x s4 = (Return (), s5)"
    and tag: "tag_and_export ev x s5 = (Return (), st')" by blast
  from d have d2: "deref ?s2 d = Some (Dict kv)" by simp
  from set x have s3: "x = PyRef (Suc (length (heap st)))"
    "heap s3 = heap st @ [Dict dagmc_export_def, Dict (update_items kv dagmc_export_def)]"
    "trace s3 = trace ?s2"
    by (auto simp: set_dagmc_export_result[OF d2])
  have "map_of dagmc_export_def ''skip_imprint'' = Some (PyBool False)"
    by (simp add: dagmc_export_def_def)
  from configured_lookup[OF this, of kv]
  have "lookup s3 x ''skip_imprint'' = Some (?cfg ''skip_imprint'')"
    by (simp add: s3 lookup_def deref_PyRef nth_append map_of_update_items[OF dist])
  moreover have "lookup s4 x ''skip_imprint'' = lookup s3 x ''skip_imprint''"
    using imp import_ivb_step_lookup[of ev s3 "Return ()" s4 "''skip_imprint''" x] by auto
  ultimately have sk: "lookup s4 x ''skip_imprint'' = Some (?cfg ''skip_imprint'')" by simp
  have h5: "heap s5 = heap s4" by (rule heap_keptD[OF heap_kept_imprint_and_merge mrg])
  have h': "heap st' = heap s5" by (rule heap_keptD[OF heap_kept_tag_and_export tag])
  have tr: "truthy st' (?cfg ''skip_imprint'') = truthy s4 (?cfg ''skip_imprint'')"
    using truthy_heap[OF h'] truthy_heap[OF h5] by simp
  have "\<exists>b. trace s4 = trace s3 @ b \<and> list_all (\<lambda>c. \<not> merge_call c \<and> \<not> imprint_call c) b"
    using imp emitsD[OF emits_no_merging_import, of ev s3 "Return ()" s4] by auto
  then obtain b where b: "trace s4 = trace s3 @ b"
    "list_all (\<lambda>c. \<not> merge_call c \<and> \<not> imprint_call c) b" by blast
  from emitsD[OF emits_no_merging_tags tag] obtain e where e: "trace st' = trace s5 @ e"
    "list_all (\<lambda>c. \<not> merge_call c \<and> \<not> imprint_call c) e" by blast
  from imprint_and_merge_Return[OF mrg] sk
  have m: "if truthy s4 (?cfg ''skip_imprint'')
           then (\<exists>a. invessel_build s4 = Some (PyRef a)
                  \<and> trace s5 = trace s4 @ [Merge_layer_surfaces (PyRef a)])
           else trace s5 = trace s4 @ [Cubit_cmd [Lit ''imprint volume all''],
                                       Cubit_cmd [Lit ''merge volume all'']]" by simp
  from b(2) e(2) have be: "\<forall>c\<in>set b \<union> set e. \<not> merge_call c \<and> \<not> imprint_call c"
    by (auto simp: list_all_iff)
  show ?thesis
  proof (cases "truthy s4 (?cfg ''skip_imprint'')")
    case True
    with m obtain a where "trace s5 = trace s4 @ [Merge_layer_surfaces (PyRef a)]" by auto
    with b(1) e(1) s3(3) have "trace st' = trace st @ ([Init_cubit,
                Logger_info [Lit ''Exporting DAGMC neutronics model...'']] @ b
                @ [Merge_layer_surfaces (PyRef a)] @ e)" by simp
    with be True tr show ?thesis
      by (intro exI[of _ "[Init_cubit,
                Logger_info [Lit ''Exporting DAGMC neutronics model...'']] @ b
                @ [Merge_layer_surfaces (PyRef a)] @ e"]) auto
  next
    case False
    with m have "trace s5 = trace s4 @ [Cubit_cmd [Lit ''imprint volume all''],
                                       Cubit_cmd [Lit ''merge volume all'']]" by simp
    with b(1) e(1) s3(3) have "trace st' = trace st @ ([Init_cubit,
                Logger_info [Lit ''Exporting DAGMC neutronics model...'']] @ b
                @ [Cubit_cmd [Lit ''imprint volume all''],
                   Cubit_cmd [Lit ''merge volume all'']] @ e)" by simp
    with be False tr show ?thesis
      by (intro exI[of _ "[Init_cubit,
                Logger_info [Lit ''Exporting DAGMC neutronics model...'']] @ b
                @ [Cubit_cmd [Lit ''imprint volume all''],
                   Cubit_cmd [Lit ''merge volume all'']] @ e"]) auto
  qed
qed

end
